theory Spec2Isabelle
  imports Complex_Main
begin

section \<open>Conventions of the embedding\<close>

text \<open>
  The quantitative functions of \<^verbatim>\<open>functions/calculations.py\<close>,
  \<^verbatim>\<open>functions/options_logic.py\<close>, \<^verbatim>\<open>display/ui_components.py\<close> and
  \<^verbatim>\<open>TradeBot_V1.py\<close> are embedded as HOL functions.  A Python or numpy float is an
  exact \<open>real\<close>; the float NaN (pandas' null) is \<open>None\<close> of \<open>real option\<close>.  A pandas
  Series is the list of its values in index order, a DataFrame the list of its rows.
  Where the code can divide by zero, the infinite or NaN quotient of numpy is a value of
  the type \<open>npfloat\<close>, and where Python raises, the result is the error of a sum type.

  The result of a float operation is the exact result rounded to a double.  Where a
  statement turns on a comparison or an equality that this rounding can decide (the
  spread filter of \<^verbatim>\<open>rank_options_logic\<close>, the running sum of \<^verbatim>\<open>analyze_market_trend\<close>,
  the quotient of \<^verbatim>\<open>calculate_vwap\<close>), the function takes the rounding \<open>fl\<close> as a
  parameter and applies it to the result of every arithmetic operation and to every
  decimal literal; what is proved of such a function is proved for every \<open>fl\<close>, so also
  for the rounding of the doubles.  \<open>exact\<close> is the rounding that changes nothing.
  \<open>accurate fl\<close> says that \<open>fl\<close> has a relative error of at most \<open>1e-15\<close> on the
  magnitudes from \<open>1e-10\<close> to 1000; rounding to the nearest double has a relative error
  of at most \<open>2\<^sup>-\<^sup>5\<^sup>3 < 1.2e-16\<close> there.  Everywhere else the arithmetic is exact, and
  overflow is not modelled.
\<close>

definition exact :: "real \<Rightarrow> real" where
  "exact x = x"


section \<open>Pivot detection: \<^verbatim>\<open>calculations.find_pivots\<close>\<close>


text \<open>The values of a window that are not NaN.\<close>

fun dropna :: "real option list \<Rightarrow> real list" where
  "dropna [] = []"
| "dropna (None # xs) = dropna xs"
| "dropna (Some v # xs) = v # dropna xs"











subsection \<open>The deduplication in the words of the specification\<close>



section \<open>Probability of profit\<close>

text \<open>
  \<^verbatim>\<open>scipy.stats.norm.cdf\<close> is library code: the standard normal distribution function is
  the parameter \<open>Phi\<close> of the functions that call it, and what a theorem needs of it
  (strictly increasing, values between 0 and 1) is a hypothesis there.  The function
  \<open>logistic\<close> is one concrete distribution function with these properties; it
  instantiates \<open>Phi\<close> where a closed statement is evaluated.
\<close>

definition logistic :: "real \<Rightarrow> real" where
  "logistic x = 1 / (1 + exp (- x))"

text \<open>
  In double precision \<^verbatim>\<open>norm.cdf\<close> is increasing but not strictly: the doubles next to
  1.0 are about \<open>1.1e-16\<close> apart, so the function returns exactly 1.0 from an argument
  of about 8.3 on.  \<open>saturating\<close> is a distribution function of that kind: the logistic
  one below 8.3 and 1 from there.
\<close>

definition saturating :: "real \<Rightarrow> real" where
  "saturating x = (if 8.3 \<le> x then 1 else logistic x)"

text \<open>\<^verbatim>\<open>np.clip(x, lo, hi)\<close> is \<^verbatim>\<open>minimum(maximum(x, lo), hi)\<close>.\<close>

definition np_clip :: "real \<Rightarrow> real \<Rightarrow> real \<Rightarrow> real" where
  "np_clip x lo hi = min (max x lo) hi"

text \<open>
  \<^verbatim>\<open>calculations.calculate_pop\<close>, the function that \<^verbatim>\<open>rank_options_logic\<close> and
  \<^verbatim>\<open>analyze_single_option_details\<close> call.  The arguments are numbers, so the
  \<^verbatim>\<open>isinstance\<close> guard of the first line passes; \<open>None\<close> is the returned \<^verbatim>\<open>np.nan\<close>.
  The parameter \<open>premium\<close> is not used after that guard.
\<close>

definition calculate_pop ::
  "(real \<Rightarrow> real) \<Rightarrow> string \<Rightarrow> real \<Rightarrow> real \<Rightarrow> real \<Rightarrow> real \<Rightarrow> real \<Rightarrow> real option" where
  "calculate_pop Phi option_type strike_price premium current_price implied_volatility dte =
     (if dte \<le> 0 \<or> implied_volatility \<le> 0 \<or> current_price \<le> 0 \<or> strike_price \<le> 0
      then None
      else
        let time_to_expiration_years = dte / 365;
            r = 0.05;
            q = 0;
            sigma_sqrt_t = implied_volatility * sqrt time_to_expiration_years
        in if sigma_sqrt_t = 0 then None
           else
             let d1 = (ln (current_price / strike_price)
                        + (r - q + 0.5 * implied_volatility\<^sup>2) * time_to_expiration_years)
                      / sigma_sqrt_t;
                 d2 = d1 - sigma_sqrt_t
             in if option_type = ''call'' then Some (np_clip (Phi d2) 0 1)
                else if option_type = ''put'' then Some (np_clip (Phi (- d2)) 0 1)
                else None)"

text \<open>
  \<^verbatim>\<open>TradeBot_V1.calculate_pop\<close> has no guard on the prices, so the quotient and the
  logarithm can leave the finite floats.  \<open>np_log_ratio\<close> is \<^verbatim>\<open>np.log(a / b)\<close> on
  numpy floats: division by zero gives an infinity (NaN for 0/0), the logarithm of a
  negative number is NaN, of zero minus infinity, of infinity infinity.
\<close>

datatype npfloat = NaN | NegInf | PosInf | Fin real

definition np_log_ratio :: "real \<Rightarrow> real \<Rightarrow> npfloat" where
  "np_log_ratio a b =
     (if b = 0 then (if a > 0 then PosInf else NaN)
      else if a / b < 0 then NaN
      else if a / b = 0 then NegInf
      else Fin (ln (a / b)))"

text \<open>
  With \<open>dte > 0\<close> and \<open>implied_volatility > 0\<close> the divisor \<open>\<sigma>\<surd>t\<close> is positive and finite,
  so an infinite logarithm gives \<open>d2\<close> the same infinity; \<^verbatim>\<open>norm.cdf\<close> is 0 at minus
  infinity and 1 at infinity.
\<close>

definition calculate_pop_v1 ::
  "(real \<Rightarrow> real) \<Rightarrow> string \<Rightarrow> real \<Rightarrow> real \<Rightarrow> real \<Rightarrow> real \<Rightarrow> real \<Rightarrow> real option" where
  "calculate_pop_v1 Phi option_type strike_price premium current_price implied_volatility dte =
     (if dte \<le> 0 \<or> implied_volatility \<le> 0 then None
      else if option_type \<noteq> ''call'' \<and> option_type \<noteq> ''put'' then None
      else
        let time_to_expiration_years = dte / 365;
            breakeven_price = (if option_type = ''call'' then strike_price + premium
                               else strike_price - premium);
            r = 0.01;
            q = 0
        in case np_log_ratio current_price breakeven_price of
             NaN \<Rightarrow> None
           | NegInf \<Rightarrow> Some (if option_type = ''call'' then 0 else 1)
           | PosInf \<Rightarrow> Some (if option_type = ''call'' then 1 else 0)
           | Fin l \<Rightarrow>
               let d1_pop = (l + (r - q + 0.5 * implied_volatility\<^sup>2) * time_to_expiration_years)
                            / (implied_volatility * sqrt time_to_expiration_years);
                   d2_pop = d1_pop - implied_volatility * sqrt time_to_expiration_years
               in if option_type = ''call'' then Some (Phi d2_pop) else Some (Phi (- d2_pop)))"

text \<open>
  The probability of profit in the words of the specification, for a risk-free rate \<open>r\<close>:
  breakeven = strike + premium for calls and strike - premium for puts,
  \<open>t = DTE / 365\<close>, \<open>d1 = (ln (S / breakeven) + (r + 0.5 \<sigma>\<^sup>2) t) / (\<sigma> \<surd>t)\<close>,
  \<open>d2 = d1 - \<sigma> \<surd>t\<close>, POP = \<open>\<Phi> d2\<close> for calls and \<open>\<Phi> (- d2)\<close> for puts, clipped to [0, 1].
\<close>

definition spec_breakeven :: "string \<Rightarrow> real \<Rightarrow> real \<Rightarrow> real" where
  "spec_breakeven option_type strike premium =
     (if option_type = ''call'' then strike + premium else strike - premium)"

definition spec_d2 :: "real \<Rightarrow> real \<Rightarrow> real \<Rightarrow> real \<Rightarrow> real \<Rightarrow> real" where
  "spec_d2 r breakeven S sigma dte =
     (let t = dte / 365;
          d1 = (ln (S / breakeven) + (r + 0.5 * sigma\<^sup>2) * t) / (sigma * sqrt t)
      in d1 - sigma * sqrt t)"

definition spec_pop ::
  "(real \<Rightarrow> real) \<Rightarrow> real \<Rightarrow> string \<Rightarrow> real \<Rightarrow> real \<Rightarrow> real \<Rightarrow> real \<Rightarrow> real \<Rightarrow> real" where
  "spec_pop Phi r option_type strike premium S sigma dte =
     (let d2 = spec_d2 r (spec_breakeven option_type strike premium) S sigma dte
      in np_clip (if option_type = ''call'' then Phi d2 else Phi (- d2)) 0 1)"

section \<open>Option scoring: \<^verbatim>\<open>options_logic.rank_options_logic\<close>\<close>

text \<open>
  A row of the option chain as the data source delivers it: every column can hold NaN.
  \<open>raw_delta\<close> is \<open>None\<close> both for a null delta and for a chain without the column
  \<^verbatim>\<open>delta\<close>, which \<^verbatim>\<open>rank_options_logic\<close> first creates filled with NaN.
\<close>

record raw_row =
  raw_strike :: "real option"
  raw_lastPrice :: "real option"
  raw_bid :: "real option"
  raw_ask :: "real option"
  raw_volume :: "real option"
  raw_openInterest :: "real option"
  raw_impliedVolatility :: "real option"
  raw_delta :: "real option"

text \<open>A row that survived \<^verbatim>\<open>df.dropna(subset=required_cols)\<close>: only delta can be NaN.\<close>

record chain_row =
  strike :: real
  lastPrice :: real
  bid :: real
  ask :: real
  volume :: real
  openInterest :: real
  impliedVolatility :: real
  delta :: "real option"

definition dropna_row :: "raw_row \<Rightarrow> chain_row option" where
  "dropna_row r =
     (case raw_strike r of None \<Rightarrow> None | Some k \<Rightarrow>
      case raw_lastPrice r of None \<Rightarrow> None | Some p \<Rightarrow>
      case raw_bid r of None \<Rightarrow> None | Some b \<Rightarrow>
      case raw_ask r of None \<Rightarrow> None | Some a \<Rightarrow>
      case raw_volume r of None \<Rightarrow> None | Some v \<Rightarrow>
      case raw_openInterest r of None \<Rightarrow> None | Some oi \<Rightarrow>
      case raw_impliedVolatility r of None \<Rightarrow> None | Some iv \<Rightarrow>
        Some \<lparr>strike = k, lastPrice = p, bid = b, ask = a, volume = v,
              openInterest = oi, impliedVolatility = iv, delta = raw_delta r\<rparr>)"

text \<open>The helpers of \<^verbatim>\<open>options_logic.py\<close>.\<close>

definition calculate_breakeven :: "string \<Rightarrow> real \<Rightarrow> real \<Rightarrow> real option" where
  "calculate_breakeven option_type strike_price premium =
     (if option_type = ''call'' then Some (strike_price + premium)
      else if option_type = ''put'' then Some (strike_price - premium)
      else None)"

definition calculate_intrinsic_value :: "string \<Rightarrow> real \<Rightarrow> real \<Rightarrow> real" where
  "calculate_intrinsic_value option_type strike_price current_price =
     (if option_type = ''call'' then max 0 (current_price - strike_price)
      else if option_type = ''put'' then max 0 (strike_price - current_price)
      else 0)"

definition calculate_time_value :: "real \<Rightarrow> real \<Rightarrow> real" where
  "calculate_time_value last_price intrinsic_value = max 0 (last_price - intrinsic_value)"

text \<open>The constant \<^verbatim>\<open>1e-9\<close> that guards the divisions.\<close>

definition e9 :: real where
  "e9 = 1 / 10 ^ 9"

text \<open>
  \<^verbatim>\<open>abs(num / den * 100)\<close> on floats.  The divisor \<^verbatim>\<open>current_price + 1e-9\<close> is zero
  for one input; the float quotient is then infinite, or NaN for 0/0.
\<close>

definition abs_pct :: "real \<Rightarrow> real \<Rightarrow> npfloat" where
  "abs_pct num den =
     (if den = 0 then (if num = 0 then NaN else PosInf) else Fin \<bar>num / den * 100\<bar>)"

text \<open>
  \<^verbatim>\<open>(1 - abs(dist - ideal) / 10).clip(0, 1)\<close>: an infinite distance clips to 0, NaN
  stays NaN.
\<close>

definition breakeven_score_of :: "npfloat \<Rightarrow> real option" where
  "breakeven_score_of bdist =
     (case bdist of
        Fin x \<Rightarrow> Some (np_clip (1 - \<bar>x - 5\<bar> / 10) 0 1)
      | PosInf \<Rightarrow> Some 0
      | NegInf \<Rightarrow> Some 0
      | NaN \<Rightarrow> None)"

text \<open>
  \<^verbatim>\<open>pd.cut(score, bins=[0, 0.4, 0.6, 0.75, 1.0], labels=[...])\<close> with the defaults
  \<^verbatim>\<open>right=True\<close>, \<^verbatim>\<open>include_lowest=False\<close>: the bins are open on the left and closed on
  the right, and a value in no bin gets NaN.
\<close>

datatype tier = Poor | Fair | Good | Excellent

definition pd_cut :: "real \<Rightarrow> tier option" where
  "pd_cut x =
     (if 0 < x \<and> x \<le> 0.4 then Some Poor
      else if 0.4 < x \<and> x \<le> 0.6 then Some Fair
      else if 0.6 < x \<and> x \<le> 0.75 then Some Good
      else if 0.75 < x \<and> x \<le> 1.0 then Some Excellent
      else None)"

text \<open>The two lambdas of the delta score.\<close>

definition delta_score_call :: "real \<Rightarrow> real" where
  "delta_score_call x = (if 0.2 \<le> x \<and> x \<le> 0.8 then 1 - \<bar>x - 0.5\<bar> / 0.5 else 0.2)"

definition delta_score_put :: "real \<Rightarrow> real" where
  "delta_score_put x =
     (if 0.2 \<le> \<bar>x\<bar> \<and> \<bar>x\<bar> \<le> 0.8 then 1 - \<bar>\<bar>x\<bar> - 0.5\<bar> / 0.5 else 0.2)"

text \<open>
  A row of the returned frame: the chain columns (delta now filled) and every column
  the function adds.  A column that can hold NaN is an option or an \<open>npfloat\<close>.
\<close>

record scored_row = chain_row +
  mid_price :: real
  spread_pct :: real
  POP :: "real option"
  intrinsic_value :: real
  time_value :: real
  breakeven :: "real option"
  breakeven_distance_pct :: npfloat
  pop_score :: "real option"
  norm_volume :: real
  norm_oi :: real
  spread_score :: real
  liquidity_score :: real
  time_value_ratio :: real
  breakeven_score :: "real option"
  value_score :: "real option"
  delta_score :: real
  Overall_Score :: "real option"
  Quality_Tier :: "tier option"

text \<open>
  The two columns of the spread filter, in float arithmetic:
  \<^verbatim>\<open>(df['bid'] + df['ask']) / 2\<close> and
  \<^verbatim>\<open>((df['ask'] - df['bid']) / (df['mid_price'] + 1e-9)) * 100\<close>.
\<close>

definition mid_price_of :: "(real \<Rightarrow> real) \<Rightarrow> chain_row \<Rightarrow> real" where
  "mid_price_of fl c = fl (fl (bid c + ask c) / 2)"

definition spread_pct_of :: "(real \<Rightarrow> real) \<Rightarrow> chain_row \<Rightarrow> real" where
  "spread_pct_of fl c =
     fl (fl (fl (ask c - bid c) / fl (mid_price_of fl c + fl e9)) * 100)"

text \<open>
  \<^verbatim>\<open>(df[col] - lo) / (hi - lo + 1e-9) if (hi - lo) != 0 else 0.5\<close>, for one row.
\<close>

definition norm_col :: "real \<Rightarrow> real \<Rightarrow> real \<Rightarrow> real" where
  "norm_col lo hi x = (if hi - lo \<noteq> 0 then (x - lo) / (hi - lo + e9) else 0.5)"

text \<open>\<^verbatim>\<open>.max()\<close> and \<^verbatim>\<open>.min()\<close> of a column of the non-empty filtered frame.\<close>

definition col_max :: "real list \<Rightarrow> real" where
  "col_max xs = (case xs of [] \<Rightarrow> 0 | x # ys \<Rightarrow> fold max ys x)"

definition col_min :: "real list \<Rightarrow> real" where
  "col_min xs = (case xs of [] \<Rightarrow> 0 | x # ys \<Rightarrow> fold min ys x)"

text \<open>
  All added columns of one row.

  The statement \<^verbatim>\<open>df['POP'].fillna(0, inplace=True)\<close> fills, in place, the Series that
  \<^verbatim>\<open>df['POP']\<close> returns.  What that does to the frame is decided by pandas, not by this
  code: before pandas 3 the Series shares the data of the column, so the NaN of the
  column become 0; from pandas 3 (copy-on-write) the Series is a copy and the column
  keeps its NaN.  The repository names no pandas version, so \<open>chained_fill\<close> is a
  parameter: \<open>True\<close> when the statement fills the column, \<open>False\<close> when it has no effect.

  For an option type other than call and put, \<^verbatim>\<open>calculate_breakeven\<close> returns Python's
  \<^verbatim>\<open>None\<close> for every row; pandas treats it as a missing value, so the breakeven
  distance and all that is computed from it are NaN, and the delta score is the one of
  the \<^verbatim>\<open>else\<close> branch.  A NaN in \<^verbatim>\<open>pop_score\<close> or \<^verbatim>\<open>value_score\<close> makes the overall
  score NaN, and \<^verbatim>\<open>pd.cut\<close> gives a NaN score no tier.
\<close>

definition score_row ::
  "(real \<Rightarrow> real) \<Rightarrow> bool \<Rightarrow> (real \<Rightarrow> real) \<Rightarrow> string \<Rightarrow> real \<Rightarrow> real
     \<Rightarrow> real \<Rightarrow> real \<Rightarrow> real \<Rightarrow> real \<Rightarrow> chain_row \<Rightarrow> scored_row" where
  "score_row fl chained_fill Phi option_type current_price_for_rank dte_for_rank
      min_volume_val max_volume min_oi_val max_oi c =
     (let pop0 = calculate_pop Phi option_type (strike c) (lastPrice c)
                   current_price_for_rank (impliedVolatility c) dte_for_rank;
          pop = (if chained_fill then Some (case pop0 of None \<Rightarrow> 0 | Some p \<Rightarrow> p) else pop0);
          intrinsic = calculate_intrinsic_value option_type (strike c) current_price_for_rank;
          tv = calculate_time_value (lastPrice c) intrinsic;
          be = calculate_breakeven option_type (strike c) (lastPrice c);
          bdist = (case be of
                     None \<Rightarrow> NaN
                   | Some b \<Rightarrow> abs_pct (b - current_price_for_rank)
                                (current_price_for_rank + e9));
          nv = norm_col min_volume_val max_volume (volume c);
          noi = norm_col min_oi_val max_oi (openInterest c);
          ss = np_clip (1 - spread_pct_of fl c / 20) 0 1;
          liq = nv * 0.4 + noi * 0.4 + ss * 0.2;
          tvr = np_clip (tv / (lastPrice c + e9)) 0 1;
          bes = breakeven_score_of bdist;
          vs = map_option (\<lambda>b. tvr * 0.4 + b * 0.6) bes;
          d = (case delta c of None \<Rightarrow> 0.5 | Some x \<Rightarrow> x);
          ds = (if option_type = ''call'' then delta_score_call d else delta_score_put d);
          overall = (case pop of
                       None \<Rightarrow> None
                     | Some p \<Rightarrow>
                         map_option (\<lambda>v. p * 0.40 + liq * 0.25 + v * 0.20 + ds * 0.15) vs)
      in chain_row.extend (c\<lparr>delta := Some d\<rparr>)
           (scored_row.fields (mid_price_of fl c) (spread_pct_of fl c) pop intrinsic tv be
              bdist pop nv noi ss liq tvr bes vs ds overall
              (case overall of None \<Rightarrow> None | Some x \<Rightarrow> pd_cut x)))"

text \<open>
  \<^verbatim>\<open>df.sort_values("Overall_Score", ascending=False)\<close>: descending, NaN last.  pandas
  sorts with quicksort, which leaves the order of equal scores open; the model keeps
  their input order, and no statement below depends on the order of the rows.
\<close>

definition sort_by_score :: "scored_row list \<Rightarrow> scored_row list" where
  "sort_by_score rows =
     sort_key (\<lambda>s. case Overall_Score s of Some x \<Rightarrow> - x | None \<Rightarrow> 0)
        (filter (\<lambda>s. Overall_Score s \<noteq> None) rows)
     @ filter (\<lambda>s. Overall_Score s = None) rows"

text \<open>
  \<^verbatim>\<open>rank_options_logic\<close>.  An empty list is the empty frame of the two early returns.
  The function raises for no input of this type.
\<close>

definition rank_options_logic ::
  "(real \<Rightarrow> real) \<Rightarrow> bool \<Rightarrow> (real \<Rightarrow> real) \<Rightarrow> raw_row list \<Rightarrow> string \<Rightarrow> real \<Rightarrow> real
     \<Rightarrow> scored_row list" where
  "rank_options_logic fl chained_fill Phi df_original option_type current_price_for_rank
      dte_for_rank =
     (let df0 = List.map_filter dropna_row df_original
      in if df0 = [] then []
         else
           let df1 = filter (\<lambda>c. lastPrice c > 0.01 \<and> bid c > 0 \<and> ask c > 0) df0;
               df2 = filter (\<lambda>c. impliedVolatility c > 0 \<and> impliedVolatility c < 5.0) df1;
               min_volume = 10;
               min_oi = 50;
               df3 = filter (\<lambda>c. volume c \<ge> min_volume \<and> openInterest c \<ge> min_oi) df2;
               df4 = filter (\<lambda>c. spread_pct_of fl c \<le> 20) df3
           in if df4 = [] then []
              else
                let max_volume = col_max (map volume df4);
                    min_volume_val = col_min (map volume df4);
                    max_oi = col_max (map openInterest df4);
                    min_oi_val = col_min (map openInterest df4)
                in sort_by_score
                     (map (score_row fl chained_fill Phi option_type current_price_for_rank
                             dte_for_rank min_volume_val max_volume min_oi_val max_oi)
                        df4))"

text \<open>The error of \<^verbatim>\<open>analyze_single_option_details\<close>.\<close>

datatype py_error = TypeError


definition liquid_row :: raw_row where
  "liquid_row =
     \<lparr>raw_strike = Some 100, raw_lastPrice = Some 2,
      raw_bid = Some 1.9, raw_ask = Some 2.1,
      raw_volume = Some 500, raw_openInterest = Some 1000,
      raw_impliedVolatility = Some 0.3, raw_delta = None\<rparr>"


definition liquid_chain :: chain_row where
  "liquid_chain =
     \<lparr>strike = 100, lastPrice = 2, bid = 1.9, ask = 2.1,
      volume = 500, openInterest = 1000, impliedVolatility = 0.3, delta = None\<rparr>"

definition boundary_row :: raw_row where
  "boundary_row =
     \<lparr>raw_strike = Some 20, raw_lastPrice = Some 8.999999999,
      raw_bid = Some 9, raw_ask = Some 9,
      raw_volume = Some 10, raw_openInterest = Some 50,
      raw_impliedVolatility = Some 0.3, raw_delta = None\<rparr>"

definition boundary_chain :: chain_row where
  "boundary_chain =
     \<lparr>strike = 20, lastPrice = 8.999999999, bid = 9, ask = 9,
      volume = 10, openInterest = 50, impliedVolatility = 0.3, delta = None\<rparr>"

definition edge_row :: raw_row where
  "edge_row =
     \<lparr>raw_strike = Some 20, raw_lastPrice = Some 8.749999999,
      raw_bid = Some 9, raw_ask = Some 9,
      raw_volume = Some 10, raw_openInterest = Some 50,
      raw_impliedVolatility = Some 0.1, raw_delta = Some 0.7\<rparr>"

definition edge_chain :: chain_row where
  "edge_chain =
     \<lparr>strike = 20, lastPrice = 8.749999999, bid = 9, ask = 9,
      volume = 10, openInterest = 50, impliedVolatility = 0.1, delta = Some 0.7\<rparr>"

section \<open>Indicators: \<^verbatim>\<open>calculate_vwap\<close> and \<^verbatim>\<open>calculate_technical_indicators\<close>\<close>

text \<open>
  A price frame: the names of its columns and its bars in index order.  A field of a bar
  is \<open>None\<close> when the value is NaN; the fields of a column the frame does not have are
  not read.
\<close>

record bar =
  High :: "real option"
  Low :: "real option"
  Close :: "real option"
  Volume :: "real option"

record price_frame =
  columns :: "string list"
  bars :: "bar list"

text \<open>The elementwise sum of two series: NaN in, NaN out.\<close>

definition nan_add :: "real option \<Rightarrow> real option \<Rightarrow> real option" where
  "nan_add a b = (case a of None \<Rightarrow> None | Some x \<Rightarrow> map_option (\<lambda>y. x + y) b)"

text \<open>A float quotient: a zero divisor gives an infinity, or NaN for 0/0.\<close>

definition np_div :: "real \<Rightarrow> real \<Rightarrow> npfloat" where
  "np_div num den =
     (if den = 0 then (if num > 0 then PosInf else if num < 0 then NegInf else NaN)
      else Fin (num / den))"

text \<open>\<^verbatim>\<open>ffill\<close> and \<^verbatim>\<open>bfill\<close>: only NaN is filled, from the last value before or after.\<close>

fun ffill_from :: "npfloat \<Rightarrow> npfloat list \<Rightarrow> npfloat list" where
  "ffill_from prev [] = []"
| "ffill_from prev (x # xs) =
     (if x = NaN then prev # ffill_from prev xs else x # ffill_from x xs)"

definition ffill :: "npfloat list \<Rightarrow> npfloat list" where
  "ffill xs = ffill_from NaN xs"

definition bfill :: "npfloat list \<Rightarrow> npfloat list" where
  "bfill xs = rev (ffill_from NaN (rev xs))"

text \<open>The constant \<^verbatim>\<open>1e-10\<close>.\<close>

definition e10 :: real where
  "e10 = 1 / 10 ^ 10"

text \<open>
  The arithmetic of the two VWAP functions is float arithmetic with the rounding \<open>fl\<close>:
  whether a quotient \<^verbatim>\<open>(p * v) / v\<close> gives back \<open>p\<close> is decided by the rounding.
  Elementwise operations give NaN for a NaN operand.
\<close>

definition fl_add :: "(real \<Rightarrow> real) \<Rightarrow> real option \<Rightarrow> real option \<Rightarrow> real option" where
  "fl_add fl a b = (case a of None \<Rightarrow> None | Some x \<Rightarrow> map_option (\<lambda>y. fl (x + y)) b)"

definition fl_mul :: "(real \<Rightarrow> real) \<Rightarrow> real option \<Rightarrow> real option \<Rightarrow> real option" where
  "fl_mul fl a b = (case a of None \<Rightarrow> None | Some x \<Rightarrow> map_option (\<lambda>y. fl (x * y)) b)"

text \<open>
  \<^verbatim>\<open>Series.cumsum()\<close> in float arithmetic: the first valid value starts the running
  sum as it is, every later one is added to it; a NaN entry gives NaN at its position
  and leaves the running sum as it was.
\<close>

fun fl_cumsum_from :: "(real \<Rightarrow> real) \<Rightarrow> real option \<Rightarrow> real option list \<Rightarrow> real option list" where
  "fl_cumsum_from fl acc [] = []"
| "fl_cumsum_from fl acc (None # xs) = None # fl_cumsum_from fl acc xs"
| "fl_cumsum_from fl None (Some v # xs) = Some v # fl_cumsum_from fl (Some v) xs"
| "fl_cumsum_from fl (Some a) (Some v # xs) =
     Some (fl (a + v)) # fl_cumsum_from fl (Some (fl (a + v))) xs"

definition fl_cumsum :: "(real \<Rightarrow> real) \<Rightarrow> real option list \<Rightarrow> real option list" where
  "fl_cumsum fl xs = fl_cumsum_from fl None xs"

text \<open>The rounding of a finite quotient; an infinity and NaN stay.\<close>

definition np_round :: "(real \<Rightarrow> real) \<Rightarrow> npfloat \<Rightarrow> npfloat" where
  "np_round fl x = (case x of Fin q \<Rightarrow> Fin (fl q) | NaN \<Rightarrow> NaN | NegInf \<Rightarrow> NegInf
                    | PosInf \<Rightarrow> PosInf)"

text \<open>\<^verbatim>\<open>(df['High'] + df['Low'] + df['Close']) / 3\<close> for one bar.\<close>

definition typical_price :: "(real \<Rightarrow> real) \<Rightarrow> bar \<Rightarrow> real option" where
  "typical_price fl b =
     map_option (\<lambda>s. fl (s / 3)) (fl_add fl (fl_add fl (High b) (Low b)) (Close b))"

text \<open>
  \<^verbatim>\<open>calculations.calculate_vwap\<close>; the result is the column \<^verbatim>\<open>VWAP\<close> of the returned
  frame.  \<^verbatim>\<open>pd.to_numeric(..., errors='coerce').fillna(0)\<close> turns a null volume into 0,
  \<^verbatim>\<open>CumVol.replace(0, np.nan)\<close> turns a zero cumulative volume into NaN, and the sum
  with \<^verbatim>\<open>1e-10\<close> is the divisor.
\<close>

definition vwap_point :: "(real \<Rightarrow> real) \<Rightarrow> real option \<Rightarrow> real option \<Rightarrow> npfloat" where
  "vwap_point fl cum_vol_price cum_vol =
     (case cum_vol_price of None \<Rightarrow> NaN
      | Some n \<Rightarrow>
         (case cum_vol of None \<Rightarrow> NaN
          | Some v \<Rightarrow> if v = 0 then NaN else np_round fl (np_div n (fl (v + fl e10)))))"

definition calculate_vwap :: "(real \<Rightarrow> real) \<Rightarrow> price_frame \<Rightarrow> npfloat list" where
  "calculate_vwap fl df =
     (if (\<forall>col \<in> set [''High'', ''Low'', ''Close'', ''Volume'']. col \<in> set (columns df))
      then
        let vol = map (\<lambda>b. case Volume b of None \<Rightarrow> Some 0 | Some v \<Rightarrow> Some v) (bars df);
            TypicalPrice = map (typical_price fl) (bars df);
            price_volume_weighted = map2 (fl_mul fl) TypicalPrice vol;
            CumVol = fl_cumsum fl vol;
            CumVolPrice = fl_cumsum fl price_volume_weighted
        in bfill (ffill (map2 (vwap_point fl) CumVolPrice CumVol))
      else map (\<lambda>b. NaN) (bars df))"

text \<open>
  \<^verbatim>\<open>TradeBot_V1.calculate_vwap\<close> reads the four columns without a check (a missing
  column raises \<^verbatim>\<open>KeyError\<close>), does not coerce the volume and divides by the cumulative
  volume itself, zero replaced by NaN.
\<close>

datatype key_error = KeyError

definition vwap_point_v1 :: "(real \<Rightarrow> real) \<Rightarrow> real option \<Rightarrow> real option \<Rightarrow> npfloat" where
  "vwap_point_v1 fl cum_vol_price cum_vol =
     (case cum_vol_price of None \<Rightarrow> NaN
      | Some n \<Rightarrow>
         (case cum_vol of None \<Rightarrow> NaN
          | Some v \<Rightarrow> if v = 0 then NaN else Fin (fl (n / v))))"

definition calculate_vwap_v1 :: "(real \<Rightarrow> real) \<Rightarrow> price_frame \<Rightarrow> key_error + npfloat list" where
  "calculate_vwap_v1 fl df =
     (if \<not> (\<forall>col \<in> set [''High'', ''Low'', ''Close'', ''Volume'']. col \<in> set (columns df))
      then Inl KeyError
      else
        let TypicalPrice = map (typical_price fl) (bars df);
            price_volume_weighted = map2 (fl_mul fl) TypicalPrice (map Volume (bars df));
            CumVol = fl_cumsum fl (map Volume (bars df));
            CumVolPrice = fl_cumsum fl price_volume_weighted
        in Inr (bfill (ffill (map2 (vwap_point_v1 fl) CumVolPrice CumVol))))"

text \<open>The frame with the four columns and the given bars.\<close>

definition ohlcv :: "bar list \<Rightarrow> price_frame" where
  "ohlcv bs = \<lparr>columns = [''Open'', ''High'', ''Low'', ''Close'', ''Volume''], bars = bs\<rparr>"

subsection \<open>\<^verbatim>\<open>calculations.calculate_technical_indicators\<close>\<close>

text \<open>
  \<^verbatim>\<open>Series.ewm(alpha=\<alpha>, adjust=False).mean()\<close> with the default \<^verbatim>\<open>ignore_na=False\<close>,
  as pandas computes it: \<open>weighted\<close> is the running average (NaN before the first
  observation), \<open>old_wt\<close> the weight of the past, which decays over a NaN entry; a NaN
  entry repeats the running average.  (The branch of pandas for \<open>\<alpha> = 1/2\<close> is not
  needed: the function uses 1/14, 2/13, 2/27 and 2/10.)
\<close>

fun ewm_loop :: "real \<Rightarrow> real option \<Rightarrow> real \<Rightarrow> real option list \<Rightarrow> real option list" where
  "ewm_loop \<alpha> weighted old_wt [] = []"
| "ewm_loop \<alpha> None old_wt (cur # xs) = cur # ewm_loop \<alpha> cur old_wt xs"
| "ewm_loop \<alpha> (Some w) old_wt (None # xs) = Some w # ewm_loop \<alpha> (Some w) (old_wt * (1 - \<alpha>)) xs"
| "ewm_loop \<alpha> (Some w) old_wt (Some cur # xs) =
     (let ow = old_wt * (1 - \<alpha>);
          w' = (if w \<noteq> cur then (ow * w + \<alpha> * cur) / (ow + \<alpha>) else w)
      in Some w' # ewm_loop \<alpha> (Some w') 1 xs)"

definition ewm_mean :: "real \<Rightarrow> real option list \<Rightarrow> real option list" where
  "ewm_mean \<alpha> xs = (case xs of [] \<Rightarrow> [] | x # ys \<Rightarrow> x # ewm_loop \<alpha> x 1 ys)"

text \<open>\<^verbatim>\<open>ewm(span=s)\<close> is \<open>\<alpha> = 2 / (s + 1)\<close>.\<close>

definition span_alpha :: "real \<Rightarrow> real" where
  "span_alpha s = 2 / (s + 1)"

text \<open>
  \<^verbatim>\<open>s.rolling(window=n, min_periods=n).mean()\<close> on a series without NaN: NaN at the
  first \<open>n - 1\<close> positions, then the mean of the last \<open>n\<close> values.
\<close>

definition rolling_mean :: "nat \<Rightarrow> real list \<Rightarrow> real option list" where
  "rolling_mean n xs =
     map (\<lambda>i. if i + 1 < n then None
               else Some (sum_list (take n (drop (i + 1 - n) xs)) / real n))
       [0..<length xs]"

text \<open>\<^verbatim>\<open>s.diff()\<close>: NaN first, then the difference to the previous value.\<close>

definition diff :: "real list \<Rightarrow> real option list" where
  "diff xs = (case xs of [] \<Rightarrow> [] | x # ys \<Rightarrow> None # map2 (\<lambda>a b. Some (b - a)) xs ys)"

text \<open>
  \<^verbatim>\<open>s.reindex(df.index)\<close> for a series computed on the rows with a valid close: the
  other rows get NaN.  \<open>valid\<close> tells for each row of the frame whether its close is
  valid; \<open>vals\<close> are the values of the valid rows in order.
\<close>

fun reindex :: "bool list \<Rightarrow> real option list \<Rightarrow> real option list" where
  "reindex [] vals = []"
| "reindex (False # bs) vals = None # reindex bs vals"
| "reindex (True # bs) [] = None # reindex bs []"
| "reindex (True # bs) (v # vals) = v # reindex bs vals"

definition fillna :: "real \<Rightarrow> real option list \<Rightarrow> real list" where
  "fillna d xs = map (\<lambda>x. case x of None \<Rightarrow> d | Some v \<Rightarrow> v) xs"

definition RSI_PERIOD :: nat where "RSI_PERIOD = 14"
definition MACD_FAST_PERIOD :: nat where "MACD_FAST_PERIOD = 12"
definition MACD_SLOW_PERIOD :: nat where "MACD_SLOW_PERIOD = 26"
definition MACD_SIGNAL_PERIOD :: nat where "MACD_SIGNAL_PERIOD = 9"

text \<open>The RSI branch for more than \<open>RSI_PERIOD\<close> valid closes, before the reindexing.\<close>

definition rsi_series :: "real list \<Rightarrow> real option list" where
  "rsi_series close_prices =
     (let delta = diff close_prices;
          gain = map (\<lambda>d. case d of None \<Rightarrow> 0 | Some x \<Rightarrow> max x 0) delta;
          loss = map (\<lambda>d. case d of None \<Rightarrow> 0 | Some x \<Rightarrow> - min x 0) delta;
          avg_gain0 = take RSI_PERIOD (rolling_mean RSI_PERIOD gain);
          avg_loss0 = take RSI_PERIOD (rolling_mean RSI_PERIOD loss);
          avg_gain = ewm_mean (1 / real RSI_PERIOD) (avg_gain0 @ map Some (drop RSI_PERIOD gain));
          avg_loss = ewm_mean (1 / real RSI_PERIOD) (avg_loss0 @ map Some (drop RSI_PERIOD loss));
          rs = map2 (\<lambda>g l. case g of None \<Rightarrow> None
                            | Some gv \<Rightarrow> map_option (\<lambda>lv. gv / (if lv = 0 then e10 else lv)) l)
                 avg_gain avg_loss
      in map (map_option (\<lambda>r. 100 - 100 / (1 + r))) rs)"

text \<open>
  \<^verbatim>\<open>calculate_technical_indicators\<close> returns the three series RSI, MACD line and signal
  line; an empty list is the empty series.
\<close>

definition calculate_technical_indicators ::
  "price_frame \<Rightarrow> real list \<times> real list \<times> real list" where
  "calculate_technical_indicators df =
     (if ''Close'' \<notin> set (columns df) \<or> bars df = [] \<or> (\<forall>b \<in> set (bars df). Close b = None)
      then ([], [], [])
      else
        let close_prices = dropna (map Close (bars df));
            valid = map (\<lambda>b. Close b \<noteq> None) (bars df)
        in if close_prices = [] then ([], [], [])
           else
             let rsi = (if length close_prices \<le> RSI_PERIOD
                        then replicate (length (bars df)) 50
                        else fillna 50 (reindex valid (rsi_series close_prices)))
             in if length close_prices \<ge> MACD_SLOW_PERIOD
                then
                  let ema_fast = ewm_mean (span_alpha (real MACD_FAST_PERIOD))
                                   (map Some close_prices);
                      ema_slow = ewm_mean (span_alpha (real MACD_SLOW_PERIOD))
                                   (map Some close_prices);
                      macd_line = reindex valid (map2 nan_add ema_fast
                                    (map (map_option uminus) ema_slow));
                      signal_line = ewm_mean (span_alpha (real MACD_SIGNAL_PERIOD)) macd_line
                  in (rsi, fillna 0 macd_line, fillna 0 signal_line)
                else (rsi, replicate (length (bars df)) 0, replicate (length (bars df)) 0))"

section \<open>Trend aggregation\<close>

text \<open>
  The rationale strings are kept as the kind of message and the resolution it is about;
  the formatted percentage is left out.
\<close>

datatype trend_note =
    Not_enough_data
  | Insufficient string
  | Up string
  | Down string
  | Flat string
  | Insufficient_for_analysis
  | Unable_to_analyze

subsection \<open>\<^verbatim>\<open>calculations.analyze_market_trend\<close>\<close>

text \<open>
  The arithmetic of this function is float arithmetic with the rounding \<open>fl\<close>: its label
  compares a sum of the weights with the literal \<^verbatim>\<open>0.1\<close>, and the doubles of
  \<^verbatim>\<open>0.4 - 0.3\<close> and of \<^verbatim>\<open>0.1\<close> differ.  The dictionary \<^verbatim>\<open>weights\<close> holds the doubles of
  its four literals.
\<close>

definition weights :: "(real \<Rightarrow> real) \<Rightarrow> string \<Rightarrow> real option" where
  "weights fl i =
     (if i = ''5m'' then Some (fl 0.4) else if i = ''15m'' then Some (fl 0.3)
      else if i = ''30m'' then Some (fl 0.2) else if i = ''1h'' then Some (fl 0.1) else None)"

text \<open>
  \<^verbatim>\<open>price_change_pct\<close>: 0.0 for a first price 0, NaN when a price is NaN, else
  \<^verbatim>\<open>(last_price - first_price) / first_price * 100\<close>.
\<close>

definition price_change_pct ::
  "(real \<Rightarrow> real) \<Rightarrow> real option \<Rightarrow> real option \<Rightarrow> real option" where
  "price_change_pct fl first_price last_price =
     (case first_price of
        None \<Rightarrow> None
      | Some f \<Rightarrow> if f = 0 then Some 0
                  else map_option (\<lambda>l. fl (fl (fl (l - f) / f) * 100)) last_price)"

text \<open>
  The score of one interval with at least two prices: a comparison with NaN is false, so
  a NaN change is flat.
\<close>

definition interval_score :: "(real \<Rightarrow> real) \<Rightarrow> real option list \<Rightarrow> real" where
  "interval_score fl close_prices =
     (case price_change_pct fl (hd close_prices) (last close_prices) of
        None \<Rightarrow> 0
      | Some p \<Rightarrow> if p > fl 0.1 then 1 else if p < - fl 0.1 then - 1 else 0)"

text \<open>
  The loop over \<^verbatim>\<open>valid_intervals\<close>, the keys of \<^verbatim>\<open>trend_data\<close> that have a weight, in
  the order of the dictionary, which is the list of its items (keys distinct).  The
  values are float series, so the two \<^verbatim>\<open>isinstance\<close> guards pass.  The statement
  \<^verbatim>\<open>trend_score += interval_score * weights[interval]\<close> is a float product and a float
  sum.
\<close>

fun trend_loop ::
  "(real \<Rightarrow> real) \<Rightarrow> (string \<times> real option list) list \<Rightarrow> real \<Rightarrow> trend_note list
     \<Rightarrow> real \<times> trend_note list" where
  "trend_loop fl [] trend_score reasons = (trend_score, reasons)"
| "trend_loop fl ((interval, close_prices) # rest) trend_score reasons =
     (case weights fl interval of
        None \<Rightarrow> trend_loop fl rest trend_score reasons
      | Some w \<Rightarrow>
          if length close_prices < 2
          then trend_loop fl rest trend_score (reasons @ [Insufficient interval])
          else
            let sc = interval_score fl close_prices
            in trend_loop fl rest (fl (trend_score + fl (sc * w)))
                 (reasons @ [if sc = 1 then Up interval
                             else if sc = - 1 then Down interval else Flat interval]))"

text \<open>
  The weights that
  \<^verbatim>\<open>sum(weights[i] for i in valid_intervals if len(trend_data.get(i, [])) >= 2)\<close> adds.
  The built-in \<^verbatim>\<open>sum\<close> is library code (from Python 3.12 it compensates the rounding
  of the partial sums), so it is the parameter \<open>pysum\<close>; only the confidence depends on
  it.
\<close>

fun counted_weights :: "(real \<Rightarrow> real) \<Rightarrow> (string \<times> real option list) list \<Rightarrow> real list" where
  "counted_weights fl [] = []"
| "counted_weights fl ((interval, close_prices) # rest) =
     (case weights fl interval of
        None \<Rightarrow> counted_weights fl rest
      | Some w \<Rightarrow> if length close_prices \<ge> 2 then w # counted_weights fl rest
                  else counted_weights fl rest)"

definition analyze_market_trend ::
  "(real \<Rightarrow> real) \<Rightarrow> (real list \<Rightarrow> real) \<Rightarrow> (string \<times> real option list) list
     \<Rightarrow> string \<times> real \<times> trend_note list" where
  "analyze_market_trend fl pysum trend_data =
     (if trend_data = [] then (''Neutral'', 0, [Not_enough_data])
      else
        let (trend_score, reasons) = trend_loop fl trend_data 0 [];
            trend_direction = (if trend_score > fl 0.1 then ''Bullish''
                               else if trend_score < - fl 0.1 then ''Bearish''
                               else ''Neutral'');
            max_possible_score = pysum (counted_weights fl trend_data);
            confidence = (if max_possible_score = 0 then 0
                          else min (fl (fl (\<bar>trend_score\<bar> / max_possible_score) * 100)) 100)
        in (trend_direction, confidence, reasons))"

subsection \<open>\<^verbatim>\<open>ui_components.analyze_trend_properly\<close>\<close>

text \<open>
  The function downloads four close series by ticker; the model starts from the four
  arrays \<^verbatim>\<open>close_prices\<close> (numbers, oldest first).  The prices are converted with
  \<^verbatim>\<open>float(...)\<close>, so a division by a zero price raises \<^verbatim>\<open>ZeroDivisionError\<close>, which the
  enclosing \<^verbatim>\<open>try\<close> turns into the result of the \<^verbatim>\<open>except\<close> branch.  A block is
  \<open>Skipped\<close> when its series is too short, \<open>Raised\<close> on the division by zero, and else
  \<open>Used signal weight note\<close>.
\<close>

datatype block = Skipped | Raised | Used real real trend_note

text \<open>\<^verbatim>\<open>close_prices[-k]\<close> for \<open>1 \<le> k \<le> len\<close>, and \<^verbatim>\<open>np.mean(close_prices[-k:])\<close>.\<close>

definition from_end :: "real list \<Rightarrow> nat \<Rightarrow> real" where
  "from_end xs k = xs ! (length xs - k)"

definition mean_last :: "real list \<Rightarrow> nat \<Rightarrow> real" where
  "mean_last xs k = sum_list (drop (length xs - k) xs) / real k"

text \<open>The daily and the hourly block compare with a moving average as well.\<close>

definition sma_block :: "string \<Rightarrow> real \<Rightarrow> real \<Rightarrow> nat \<Rightarrow> nat \<Rightarrow> real list \<Rightarrow> block" where
  "sma_block name weight threshold need back close_prices =
     (if length close_prices \<ge> need then
        let sma = mean_last close_prices need;
            current = from_end close_prices 1;
            prev = from_end close_prices back
        in if prev = 0 then Raised
           else
             let change = ((current - prev) / prev) * 100
             in if current > sma \<and> change > threshold then Used 1 weight (Up name)
                else if current < sma \<and> change < - threshold then Used (- 1) weight (Down name)
                else Used 0 weight (Flat name)
      else Skipped)"

definition momentum_block :: "string \<Rightarrow> real \<Rightarrow> real \<Rightarrow> real list \<Rightarrow> block" where
  "momentum_block name weight threshold close_prices =
     (if length close_prices \<ge> 4 then
        let current = from_end close_prices 1;
            prev_4 = from_end close_prices 4
        in if prev_4 = 0 then Raised
           else
             let change = ((current - prev_4) / prev_4) * 100
             in if change > threshold then Used 1 weight (Up name)
                else if change < - threshold then Used (- 1) weight (Down name)
                else Used 0 weight (Flat name)
      else Skipped)"

definition trend_blocks :: "real list \<Rightarrow> real list \<Rightarrow> real list \<Rightarrow> real list \<Rightarrow> block list" where
  "trend_blocks data_1d data_1h data_30m data_15m =
     [sma_block ''Daily'' 0.40 0.5 3 2 data_1d,
      sma_block ''Hourly'' 0.30 0.3 6 6 data_1h,
      momentum_block ''30min'' 0.20 0.2 data_30m,
      momentum_block ''15min'' 0.10 0.15 data_15m]"

text \<open>The lists \<^verbatim>\<open>signals\<close> and \<^verbatim>\<open>weights\<close>, zipped, and \<^verbatim>\<open>details\<close>.\<close>

fun signals_weights :: "block list \<Rightarrow> (real \<times> real) list" where
  "signals_weights [] = []"
| "signals_weights (Used s w n # bs) = (s, w) # signals_weights bs"
| "signals_weights (b # bs) = signals_weights bs"

fun details :: "block list \<Rightarrow> trend_note list" where
  "details [] = []"
| "details (Used s w n # bs) = n # details bs"
| "details (b # bs) = details bs"

definition analyze_trend_properly ::
  "real list \<Rightarrow> real list \<Rightarrow> real list \<Rightarrow> real list \<Rightarrow> string \<times> real \<times> trend_note list" where
  "analyze_trend_properly data_1d data_1h data_30m data_15m =
     (let blocks = trend_blocks data_1d data_1h data_30m data_15m
      in if Raised \<in> set blocks then (''Neutral'', 0, [Unable_to_analyze])
         else
           let sw = signals_weights blocks
           in if sw \<noteq> [] then
                let weighted_score = (\<Sum>(s, w) \<leftarrow> sw. s * w) / (\<Sum>(s, w) \<leftarrow> sw. w);
                    confidence = \<bar>weighted_score\<bar> * 100;
                    trend = (if weighted_score > 0.15 then ''Bullish''
                             else if weighted_score < - 0.15 then ''Bearish''
                             else ''Neutral'')
                in (trend, confidence, details blocks)
              else (''Neutral'', 0, [Insufficient_for_analysis]))"

subsection \<open>The aggregation in the words of the specification\<close>

text \<open>
  Weighted score = \<open>\<Sum>(signal \<sqdot> weight) / \<Sum>(weight used)\<close>; the label is Bullish above 0.15,
  Bearish below -0.15 and Neutral otherwise.  \<open>used_signals\<close> lists, for the input of
  \<^verbatim>\<open>analyze_market_trend\<close>, the signal and the weight of every resolution that is used:
  it has a weight and at least two prices.  \<open>float_sum\<close> is the sum of signal times
  weight over such a list as floats add it, from 0 and from the left.
\<close>

definition spec_weighted_score :: "(real \<times> real) list \<Rightarrow> real" where
  "spec_weighted_score sw = (\<Sum>(s, w) \<leftarrow> sw. s * w) / (\<Sum>(s, w) \<leftarrow> sw. w)"

definition spec_trend_label :: "real \<Rightarrow> string" where
  "spec_trend_label x =
     (if x > 0.15 then ''Bullish'' else if x < - 0.15 then ''Bearish'' else ''Neutral'')"

fun used_signals ::
  "(real \<Rightarrow> real) \<Rightarrow> (string \<times> real option list) list \<Rightarrow> (real \<times> real) list" where
  "used_signals fl [] = []"
| "used_signals fl ((interval, close_prices) # rest) =
     (case weights fl interval of
        None \<Rightarrow> used_signals fl rest
      | Some w \<Rightarrow> if length close_prices < 2 then used_signals fl rest
                  else (interval_score fl close_prices, w) # used_signals fl rest)"

definition float_sum :: "(real \<Rightarrow> real) \<Rightarrow> (real \<times> real) list \<Rightarrow> real" where
  "float_sum fl sw = foldl (\<lambda>acc (s, w). fl (acc + fl (s * w))) 0 sw"

section \<open>Single-contract analysis: \<^verbatim>\<open>options_logic.analyze_single_option_details\<close>\<close>

text \<open>
  The rationale and red-flag strings are kept as the kind of message; the formatted
  numbers are left out.
\<close>

datatype remark =
    POP_NA | High_POP | Moderate_POP | Fair_POP | Low_POP
  | Excellent_Volume | Good_Volume | Moderate_Volume | Low_Volume
  | High_Open_Interest | Good_Open_Interest | Moderate_Open_Interest | Low_Open_Interest
  | Tight_Spread | Acceptable_Spread | Wide_Spread | Very_Wide_Spread
  | Healthy_IV | Elevated_IV | Very_Low_IV | Extreme_IV
  | Strong_Delta | Balanced_Delta | Moderate_Delta | Low_Delta | Very_Low_Delta
  | Close_Breakeven | Reasonable_Breakeven | Distant_Breakeven | Very_Distant_Breakeven
  | Balanced_Time_Value | Low_Time_Value | High_Time_Value

datatype recommendation = STRONG_BUY | BUY | CONSIDER | CAUTION | AVOID

text \<open>
  Each part of the scoring adds points to \<^verbatim>\<open>score\<close> and appends to \<^verbatim>\<open>reasons\<close> or to
  \<^verbatim>\<open>red_flags\<close>; a part is the triple of what it adds.
\<close>

type_synonym part = "int \<times> remark list \<times> remark list"

definition pop_part :: "real option \<Rightarrow> part" where
  "pop_part pop =
     (case pop of
        None \<Rightarrow> (0, [POP_NA], [])
      | Some p \<Rightarrow>
          if p = 0 then (0, [POP_NA], [])
          else if p \<ge> 0.55 then (25, [High_POP], [])
          else if p \<ge> 0.45 then (20, [Moderate_POP], [])
          else if p \<ge> 0.35 then (15, [Fair_POP], [])
          else (5, [], [Low_POP]))"

definition volume_part :: "real \<Rightarrow> part" where
  "volume_part v =
     (if v \<ge> 500 then (10, [Excellent_Volume], [])
      else if v \<ge> 100 then (7, [Good_Volume], [])
      else if v \<ge> 50 then (4, [Moderate_Volume], [])
      else (0, [], [Low_Volume]))"

definition oi_part :: "real \<Rightarrow> part" where
  "oi_part oi =
     (if oi \<ge> 1000 then (10, [High_Open_Interest], [])
      else if oi \<ge> 500 then (7, [Good_Open_Interest], [])
      else if oi \<ge> 100 then (4, [Moderate_Open_Interest], [])
      else (0, [], [Low_Open_Interest]))"

definition spread_part :: "real \<Rightarrow> part" where
  "spread_part sp =
     (if sp \<le> 5 then (5, [Tight_Spread], [])
      else if sp \<le> 10 then (3, [Acceptable_Spread], [])
      else if sp \<le> 15 then (1, [Wide_Spread], [])
      else (0, [], [Very_Wide_Spread]))"

definition iv_part :: "real \<Rightarrow> part" where
  "iv_part iv =
     (if 0.15 \<le> iv \<and> iv \<le> 0.60 then (15, [Healthy_IV], [])
      else if 0.60 < iv \<and> iv \<le> 1.0 then (10, [Elevated_IV], [])
      else if iv < 0.15 then (8, [], [Very_Low_IV])
      else (5, [], [Extreme_IV]))"

text \<open>The call branch tests the delta, the other branch its absolute value.\<close>

definition delta_bands :: "real \<Rightarrow> part" where
  "delta_bands d =
     (if 0.60 \<le> d \<and> d \<le> 0.80 then (20, [Strong_Delta], [])
      else if 0.40 \<le> d \<and> d < 0.60 then (18, [Balanced_Delta], [])
      else if 0.25 \<le> d \<and> d < 0.40 then (14, [Moderate_Delta], [])
      else if 0.15 \<le> d \<and> d < 0.25 then (8, [Low_Delta], [])
      else (3, [], [Very_Low_Delta]))"

definition delta_part :: "string \<Rightarrow> real \<Rightarrow> part" where
  "delta_part option_type d =
     (if option_type = ''call'' then delta_bands d else delta_bands \<bar>d\<bar>)"

text \<open>A comparison \<^verbatim>\<open>x <= c\<close> of floats: false for NaN.\<close>

definition np_le :: "npfloat \<Rightarrow> real \<Rightarrow> bool" where
  "np_le x c = (case x of Fin v \<Rightarrow> v \<le> c | NegInf \<Rightarrow> True | PosInf \<Rightarrow> False | NaN \<Rightarrow> False)"

definition breakeven_part :: "npfloat \<Rightarrow> part" where
  "breakeven_part bp =
     (if np_le bp 3 then (8, [Close_Breakeven], [])
      else if np_le bp 6 then (6, [Reasonable_Breakeven], [])
      else if np_le bp 10 then (3, [Distant_Breakeven], [])
      else (0, [], [Very_Distant_Breakeven]))"

definition time_value_part :: "real \<Rightarrow> part" where
  "time_value_part tvp =
     (if 30 \<le> tvp \<and> tvp \<le> 70 then (7, [Balanced_Time_Value], [])
      else if tvp < 30 then (4, [Low_Time_Value], [])
      else (2, [], [High_Time_Value]))"

text \<open>\<^verbatim>\<open>(num / den) * 100\<close> on floats.\<close>

definition np_pct :: "real \<Rightarrow> real \<Rightarrow> npfloat" where
  "np_pct num den = (case np_div num den of Fin q \<Rightarrow> Fin (q * 100) | x \<Rightarrow> x)"

text \<open>The returned tuple, without the confidence text that goes with the recommendation.\<close>

record analysis =
  recommended :: recommendation
  total_score :: int
  max_score :: int
  reasons :: "remark list"
  red_flags :: "remark list"
  max_loss :: real
  target_profit :: real
  rr_ratio :: "real option"
  pop :: "real option"
  breakeven_price :: real
  breakeven_pct :: npfloat

text \<open>
  \<^verbatim>\<open>analyze_single_option_details\<close>.  The row holds numbers, except that the delta can
  be absent or null: \<^verbatim>\<open>row.get("delta", 0.0) if pd.notnull(row.get("delta", 0.0)) else 0.0\<close>.
  For an option type other than call and put \<^verbatim>\<open>calculate_breakeven\<close> returns Python's
  \<^verbatim>\<open>None\<close> and \<^verbatim>\<open>abs(breakeven - current_price)\<close> raises.
\<close>

definition analyze_single_option_details ::
  "(real \<Rightarrow> real) \<Rightarrow> chain_row \<Rightarrow> real \<Rightarrow> real \<Rightarrow> string \<Rightarrow> py_error + analysis" where
  "analyze_single_option_details Phi row current_price dte option_type =
     (let price = lastPrice row;
          iv = impliedVolatility row;
          d = (case delta row of None \<Rightarrow> 0 | Some x \<Rightarrow> x);
          p = calculate_pop Phi option_type (strike row) price current_price iv dte;
          intrinsic = calculate_intrinsic_value option_type (strike row) current_price;
          tv = calculate_time_value price intrinsic
      in case calculate_breakeven option_type (strike row) price of
           None \<Rightarrow> Inl TypeError
         | Some be \<Rightarrow>
             let breakeven_distance = \<bar>be - current_price\<bar>;
                 bp = np_pct breakeven_distance (current_price + e9);
                 spread = ask row - bid row;
                 sp = (if price > 0 then (spread / (price + e9)) * 100 else 0);
                 time_value_pct = (if price > 0 then (tv / (price + e9)) * 100 else 0);
                 parts = [pop_part p, volume_part (volume row), oi_part (openInterest row),
                          spread_part sp, iv_part iv, delta_part option_type d,
                          breakeven_part bp, time_value_part time_value_pct];
                 sc = sum_list (map fst parts);
                 rs = concat (map (fst \<circ> snd) parts);
                 fl = concat (map (snd \<circ> snd) parts);
                 stop_loss = price * 0.5
             in Inr \<lparr>recommended =
                      (if sc \<ge> 80 \<and> length fl = 0 then STRONG_BUY
                       else if sc \<ge> 70 \<and> length fl \<le> 1 then BUY
                       else if sc \<ge> 60 then CONSIDER
                       else if sc \<ge> 50 then CAUTION
                       else AVOID),
                     total_score = sc, max_score = 100, reasons = rs, red_flags = fl,
                     max_loss = price, target_profit = price * 1.0,
                     rr_ratio = (if stop_loss > 0 then Some (price * 1.0 / (stop_loss + e9))
                                 else None),
                     pop = p, breakeven_price = be, breakeven_pct = bp\<rparr>)"

section \<open>Theorems\<close>

subsection \<open>Pivot deduplication\<close>










subsection \<open>Probability of profit\<close>

lemma logistic_strict_mono: "strict_mono logistic"
  by (simp add: strict_mono_def logistic_def frac_less2 add_pos_pos)

lemma logistic_range: "0 < logistic x \<and> logistic x < 1"
  by (simp add: logistic_def add_pos_pos)

lemma logistic_unit: "\<forall>x. 0 \<le> logistic x \<and> logistic x \<le> 1"
  using logistic_range by (simp add: less_imp_le)

lemma np_clip_id: "0 \<le> x \<Longrightarrow> x \<le> 1 \<Longrightarrow> np_clip x 0 1 = x"
  by (simp add: np_clip_def)

lemma np_clip_range: "0 \<le> np_clip x 0 1 \<and> np_clip x 0 1 \<le> 1"
  by (simp add: np_clip_def)

text \<open>
  On valid inputs \<^verbatim>\<open>calculations.calculate_pop\<close> is the specification's \<open>d2\<close> with the
  strike where the specification has the breakeven.
\<close>

lemma calculate_pop_valid:
  assumes "0 < dte" "0 < iv" "0 < K" "0 < S"
  shows "calculate_pop Phi ot K prem S iv dte =
    (if ot = ''call'' then Some (np_clip (Phi (spec_d2 0.05 K S iv dte)) 0 1)
     else if ot = ''put'' then Some (np_clip (Phi (- spec_d2 0.05 K S iv dte)) 0 1) else None)"
  using assms by (simp add: calculate_pop_def spec_d2_def Let_def)

lemma calculate_pop_v1_valid:
  assumes "0 < dte" "0 < iv" "0 < b" "0 < S" "b = spec_breakeven ot K prem"
    "ot = ''call'' \<or> ot = ''put''"
  shows "calculate_pop_v1 Phi ot K prem S iv dte =
    (if ot = ''call'' then Some (Phi (spec_d2 0.01 b S iv dte))
     else Some (Phi (- spec_d2 0.01 b S iv dte)))"
proof -
  have "0 < S / b" using assms by simp
  then have "np_log_ratio S b = Fin (ln (S / b))"
    using assms(3,4) by (simp add: np_log_ratio_def not_less less_imp_le)
  then show ?thesis
    using assms by (auto simp add: calculate_pop_v1_def spec_d2_def spec_breakeven_def Let_def)
qed

lemma spec_d2_strict:
  assumes "0 < dte" "0 < iv" "0 < b" "0 < S1" "S1 < S2"
  shows "spec_d2 r b S1 iv dte < spec_d2 r b S2 iv dte"
proof -
  have "ln (S1 / b) < ln (S2 / b)" using assms by (simp add: divide_strict_right_mono)
  moreover have "0 < iv * sqrt (dte / 365)" using assms by simp
  ultimately show ?thesis
    by (simp add: spec_d2_def Let_def divide_strict_right_mono)
qed

lemma spec_d2_breakeven_strict:
  assumes "0 < dte" "0 < iv" "0 < S" "0 < b1" "b1 < b2"
  shows "spec_d2 r b2 S iv dte < spec_d2 r b1 S iv dte"
proof -
  have "S / b2 < S / b1" using assms by (simp add: frac_less2)
  then have "ln (S / b2) < ln (S / b1)" using assms by simp
  moreover have "0 < iv * sqrt (dte / 365)" using assms by simp
  ultimately show ?thesis
    by (simp add: spec_d2_def Let_def divide_strict_right_mono)
qed

text \<open>
  For a call with a positive premium the breakeven lies above the strike, so for every
  strictly increasing distribution function with values in [0, 1] the probability that
  \<^verbatim>\<open>calculations.calculate_pop\<close> returns is strictly above the one computed from the
  breakeven.
\<close>

lemma calculate_pop_above_breakeven_pop:
  assumes "strict_mono Phi" and "\<forall>x. 0 \<le> Phi x \<and> Phi x \<le> 1"
    and "0 < dte" and "0 < iv" and "0 < K" and "0 < S" and "0 < prem"
  shows "\<exists>p. calculate_pop Phi ''call'' K prem S iv dte = Some p
           \<and> spec_pop Phi 0.05 ''call'' K prem S iv dte < p"
proof -
  have "spec_d2 0.05 (K + prem) S iv dte < spec_d2 0.05 K S iv dte"
    using assms by (intro spec_d2_breakeven_strict) simp_all
  then have "Phi (spec_d2 0.05 (K + prem) S iv dte) < Phi (spec_d2 0.05 K S iv dte)"
    using assms(1) by (simp add: strict_mono_def)
  then show ?thesis
    using assms by (simp add: calculate_pop_valid spec_pop_def spec_breakeven_def np_clip_id)
qed

text \<open>
  C1, as stated, fails for \<^verbatim>\<open>calculations.calculate_pop\<close>.  For the call with strike 100,
  premium 2, current price 105, volatility 0.30 and 30 days, the code takes the logarithm
  of 105/100 where the claim has 105/102, so the returned probability is not the claimed
  one (here with the logistic distribution function for \<open>Phi\<close> and the code's rate 0.05).
\<close>

theorem C1_pop_breakeven_counterexample:
  "calculate_pop logistic ''call'' 100 2 105 0.3 30
     \<noteq> Some (spec_pop logistic 0.05 ''call'' 100 2 105 0.3 30)"
proof -
  have lt: "spec_d2 0.05 102 105 0.3 30 < spec_d2 0.05 100 105 0.3 30"
    by (rule spec_d2_breakeven_strict) simp_all
  have code: "calculate_pop logistic ''call'' 100 2 105 0.3 30
      = Some (logistic (spec_d2 0.05 100 105 0.3 30))"
    using logistic_range [of "spec_d2 0.05 100 105 0.3 30"]
    by (simp add: calculate_pop_valid np_clip_id)
  have spec: "spec_pop logistic 0.05 ''call'' 100 2 105 0.3 30
      = logistic (spec_d2 0.05 102 105 0.3 30)"
    using logistic_range [of "spec_d2 0.05 102 105 0.3 30"]
    by (simp add: spec_pop_def spec_breakeven_def np_clip_id)
  from lt have "logistic (spec_d2 0.05 102 105 0.3 30) < logistic (spec_d2 0.05 100 105 0.3 30)"
    using logistic_strict_mono by (simp add: strict_mono_def)
  with code spec show ?thesis by simp
qed

text \<open>
  C1, amended.  For \<open>DTE > 0\<close>, volatility \<open>> 0\<close>, strike \<open>> 0\<close>, current price \<open>> 0\<close> and
  an option type that is call or put: \<^verbatim>\<open>calculations.calculate_pop\<close> returns the
  specification's formula with rate 0.05 and with the strike in the place of the
  breakeven, that is the formula at premium 0, whatever the premium is;
  \<^verbatim>\<open>TradeBot_V1.calculate_pop\<close> returns the specification's formula from the breakeven
  with rate 0.01 when the breakeven is positive (it does not clip, which changes nothing
  for a distribution function with values in [0, 1]).
\<close>

theorem C1_pop_formulas:
  assumes "0 < dte" and "0 < iv" and "0 < K" and "0 < S"
    and "ot = ''call'' \<or> ot = ''put''"
  shows "calculate_pop Phi ot K prem S iv dte = Some (spec_pop Phi 0.05 ot K 0 S iv dte)
       \<and> (0 < spec_breakeven ot K prem \<and> (\<forall>x. 0 \<le> Phi x \<and> Phi x \<le> 1) \<longrightarrow>
            calculate_pop_v1 Phi ot K prem S iv dte
              = Some (spec_pop Phi 0.01 ot K prem S iv dte))"
proof -
  have a: "calculate_pop Phi ot K prem S iv dte = Some (spec_pop Phi 0.05 ot K 0 S iv dte)"
    using assms by (auto simp add: calculate_pop_valid spec_pop_def spec_breakeven_def)
  have b: "calculate_pop_v1 Phi ot K prem S iv dte = Some (spec_pop Phi 0.01 ot K prem S iv dte)"
    if "0 < spec_breakeven ot K prem" and "\<forall>x. 0 \<le> Phi x \<and> Phi x \<le> 1"
    using assms that calculate_pop_v1_valid [of dte iv "spec_breakeven ot K prem" S ot K prem Phi]
    by (auto simp add: spec_pop_def np_clip_id)
  show ?thesis using a b by blast
qed

theorem C1_pop_formulas_witness:
  "calculate_pop logistic ''call'' 100 2 105 0.3 30
      = Some (spec_pop logistic 0.05 ''call'' 100 0 105 0.3 30)
   \<and> calculate_pop_v1 logistic ''call'' 100 2 105 0.3 30
      = Some (spec_pop logistic 0.01 ''call'' 100 2 105 0.3 30)"
proof -
  have b: "0 < spec_breakeven ''call'' 100 2" by (simp add: spec_breakeven_def)
  show ?thesis
    using C1_pop_formulas [of 30 "0.3" 100 105 "''call''" logistic 2] logistic_unit b by simp
qed

lemma saturating_mono: "mono saturating"
proof (rule monoI)
  fix x y :: real
  assume "x \<le> y"
  then show "saturating x \<le> saturating y"
    using logistic_range [of x] logistic_strict_mono
    by (auto simp add: saturating_def strict_mono_less_eq less_imp_le)
qed

lemma np_clip_mono: "x \<le> y \<Longrightarrow> np_clip x 0 1 \<le> np_clip y 0 1"
  by (auto simp add: np_clip_def min_def max_def)

text \<open>
  Bounds for the call with strike 100, volatility 0.30 and 30 days at the price 250:
  \<open>ln 2.5 \<ge> 0.8\<close> and \<open>\<surd>(30/365) \<le> 0.29\<close>, so \<open>d2 \<ge> 0.8 / 0.087 - 0.087 > 8.3\<close>.
\<close>

lemma ln_five_halves: "0.8 \<le> ln (5 / 2 :: real)"
proof -
  have "exp (0.4::real) \<le> 1 + 0.4 + 0.4\<^sup>2"
    by (rule exp_bound) simp_all
  then have e: "exp (0.4::real) \<le> 1.56" by (simp add: power2_eq_square)
  have "exp (0.8::real) = exp 0.4 * exp 0.4"
    by (simp add: exp_add [symmetric])
  also have "\<dots> \<le> 1.56 * 1.56"
    using e by (intro mult_mono) simp_all
  also have "\<dots> \<le> 5 / 2" by simp
  finally have "exp (0.8::real) \<le> 5 / 2" .
  then have "ln (exp (0.8::real)) \<le> ln (5 / 2)"
    by (subst ln_le_cancel_iff) simp_all
  then show ?thesis by (simp only: ln_exp)
qed

lemma sqrt_month: "0 < sqrt (30 / 365 :: real) \<and> sqrt (30 / 365 :: real) \<le> 0.29"
proof -
  have "sqrt (30 / 365 :: real) \<le> 0.29"
    by (rule real_le_lsqrt) (simp_all add: power2_eq_square)
  then show ?thesis by simp
qed

lemma deep_itm_d2: "8.3 \<le> spec_d2 0.05 100 250 0.3 30"
proof -
  define s where "s = sqrt (30 / 365 :: real)"
  have s: "0 < s" "s \<le> 0.29" using sqrt_month by (simp_all add: s_def)
  define N where "N = ln (250 / 100 :: real) + (0.05 + 0.5 * 0.3\<^sup>2) * (30 / 365)"
  have N: "0.8 \<le> N" using ln_five_halves by (simp add: N_def power2_eq_square)
  have d: "spec_d2 0.05 100 250 0.3 30 = N / (0.3 * s) - 0.3 * s"
    by (simp add: spec_d2_def Let_def N_def s_def)
  have "0.8 / (0.3 * 0.29) \<le> N / (0.3 * s)"
    using N s by (intro frac_le) simp_all
  moreover have "0.3 * s \<le> 0.3 * 0.29" using s by simp
  ultimately have "0.8 / (0.3 * 0.29) - 0.3 * 0.29 \<le> N / (0.3 * s) - 0.3 * s"
    by linarith
  moreover have "(8.3::real) \<le> 0.8 / (0.3 * 0.29) - 0.3 * 0.29" by simp
  ultimately show ?thesis unfolding d by linarith
qed

text \<open>
  C10, as stated, fails where the distribution function saturates, as the one of the
  program does.  For the call with strike 100, premium 2, volatility 0.30 and 30 days,
  \<open>d2\<close> is above 8.3 at the price 250 and at the price 300, so with the saturating
  distribution function the returned probability is 1 at both prices: defined,
  unchanged by the clip, and not strictly larger at the higher price.
\<close>

theorem C10_call_pop_saturation_counterexample:
  "calculate_pop saturating ''call'' 100 2 250 0.3 30 = Some 1
   \<and> calculate_pop saturating ''call'' 100 2 300 0.3 30 = Some 1
   \<and> saturating (spec_d2 0.05 100 250 0.3 30) = 1
   \<and> saturating (spec_d2 0.05 100 300 0.3 30) = 1
   \<and> (0::real) < 250 \<and> (250::real) < 300"
proof -
  have a: "8.3 \<le> spec_d2 0.05 100 250 0.3 30" by (rule deep_itm_d2)
  have "spec_d2 0.05 100 250 0.3 30 < spec_d2 0.05 100 300 0.3 30"
    by (rule spec_d2_strict) simp_all
  with a have b: "8.3 \<le> spec_d2 0.05 100 300 0.3 30" by linarith
  show ?thesis
    using a b by (simp add: calculate_pop_valid saturating_def np_clip_def)
qed

text \<open>
  C10, amended.  For a call, with strike, premium, volatility and DTE fixed (\<open>DTE > 0\<close>,
  volatility \<open>> 0\<close>, strike \<open>> 0\<close>) and a distribution function \<open>Phi\<close> that is increasing,
  strictly or not, the probability returned by \<^verbatim>\<open>calculations.calculate_pop\<close> is
  defined at any two prices \<open>0 < S1 < S2\<close> and at \<open>S2\<close> it is not below the one at \<open>S1\<close>.  It
  is strictly larger at \<open>S2\<close> when the distribution function takes a strictly larger
  value at the \<open>d2\<close> of \<open>S2\<close> than at the \<open>d2\<close> of \<open>S1\<close> and neither value is changed by the
  clip to [0, 1].
\<close>

theorem C10_call_pop_monotone:
  assumes "mono Phi"
    and "0 < dte" and "0 < iv" and "0 < K" and "0 < S1" and "S1 < S2"
  shows "\<exists>p1 p2. calculate_pop Phi ''call'' K prem S1 iv dte = Some p1
               \<and> calculate_pop Phi ''call'' K prem S2 iv dte = Some p2
               \<and> p1 \<le> p2
               \<and> (0 \<le> Phi (spec_d2 0.05 K S1 iv dte)
                   \<and> Phi (spec_d2 0.05 K S1 iv dte) < Phi (spec_d2 0.05 K S2 iv dte)
                   \<and> Phi (spec_d2 0.05 K S2 iv dte) \<le> 1 \<longrightarrow> p1 < p2)"
proof -
  have "spec_d2 0.05 K S1 iv dte < spec_d2 0.05 K S2 iv dte"
    using assms by (intro spec_d2_strict) simp_all
  then have le: "Phi (spec_d2 0.05 K S1 iv dte) \<le> Phi (spec_d2 0.05 K S2 iv dte)"
    using assms(1) by (simp add: monoD less_imp_le)
  have 1: "calculate_pop Phi ''call'' K prem S1 iv dte
      = Some (np_clip (Phi (spec_d2 0.05 K S1 iv dte)) 0 1)"
    and 2: "calculate_pop Phi ''call'' K prem S2 iv dte
      = Some (np_clip (Phi (spec_d2 0.05 K S2 iv dte)) 0 1)"
    using assms by (simp_all add: calculate_pop_valid)
  have 3: "np_clip (Phi (spec_d2 0.05 K S1 iv dte)) 0 1
      \<le> np_clip (Phi (spec_d2 0.05 K S2 iv dte)) 0 1"
    using le by (rule np_clip_mono)
  have 4: "0 \<le> Phi (spec_d2 0.05 K S1 iv dte)
        \<and> Phi (spec_d2 0.05 K S1 iv dte) < Phi (spec_d2 0.05 K S2 iv dte)
        \<and> Phi (spec_d2 0.05 K S2 iv dte) \<le> 1 \<longrightarrow>
      np_clip (Phi (spec_d2 0.05 K S1 iv dte)) 0 1
        < np_clip (Phi (spec_d2 0.05 K S2 iv dte)) 0 1"
    by (auto simp add: np_clip_def)
  show ?thesis using 1 2 3 4 by blast
qed

theorem C10_call_pop_monotone_witness:
  "\<exists>p1 p2. calculate_pop logistic ''call'' 100 2 100 0.3 30 = Some p1
               \<and> calculate_pop logistic ''call'' 100 2 105 0.3 30 = Some p2
               \<and> p1 \<le> p2 \<and> p1 < p2"
proof -
  have m: "mono logistic"
    using logistic_strict_mono by (simp add: strict_mono_mono)
  have lt: "spec_d2 0.05 100 100 0.3 30 < spec_d2 0.05 100 105 0.3 30"
    by (rule spec_d2_strict) simp_all
  have h: "0 \<le> logistic (spec_d2 0.05 100 100 0.3 30)
      \<and> logistic (spec_d2 0.05 100 100 0.3 30) < logistic (spec_d2 0.05 100 105 0.3 30)
      \<and> logistic (spec_d2 0.05 100 105 0.3 30) \<le> 1"
    using logistic_unit lt logistic_strict_mono by (simp add: strict_mono_less)
  have g: "(0::real) < 30" "(0::real) < 0.3" "(0::real) < 100" "(0::real) < 100"
    "(100::real) < 105"
    by simp_all
  from C10_call_pop_monotone [OF m g, of 2] h show ?thesis by blast
qed

subsection \<open>The ranked table\<close>


lemma set_sort_by_score: "set (sort_by_score rows) = set rows"
  by (auto simp add: sort_by_score_def)

lemma sort_by_score_single: "sort_by_score [x] = [x]"
  by (simp add: sort_by_score_def)

lemma col_min_le: "x \<in> set xs \<Longrightarrow> col_min xs \<le> x"
  by (cases xs) (simp_all add: col_min_def Min.set_eq_fold [symmetric])

lemma col_max_ge: "x \<in> set xs \<Longrightarrow> x \<le> col_max xs"
  by (cases xs) (simp_all add: col_max_def Max.set_eq_fold [symmetric])

text \<open>
  Every row of the result is the scored row of a chain row that passed the four filters,
  for every option type.
\<close>

lemma rank_output_row:
  assumes "s \<in> set (rank_options_logic fl cf Phi df ot S dte)"
  shows "\<exists>c lo hi lo2 hi2. c \<in> set (List.map_filter dropna_row df)
           \<and> lastPrice c > 0.01 \<and> bid c > 0 \<and> ask c > 0
           \<and> impliedVolatility c > 0 \<and> impliedVolatility c < 5
           \<and> volume c \<ge> 10 \<and> openInterest c \<ge> 50 \<and> spread_pct_of fl c \<le> 20
           \<and> lo \<le> volume c \<and> volume c \<le> hi
           \<and> lo2 \<le> openInterest c \<and> openInterest c \<le> hi2
           \<and> s = score_row fl cf Phi ot S dte lo hi lo2 hi2 c"
proof -
  define df4 where "df4 = filter (\<lambda>c. spread_pct_of fl c \<le> 20)
     (filter (\<lambda>c. volume c \<ge> 10 \<and> openInterest c \<ge> 50)
       (filter (\<lambda>c. impliedVolatility c > 0 \<and> impliedVolatility c < 5.0)
         (filter (\<lambda>c. lastPrice c > 0.01 \<and> bid c > 0 \<and> ask c > 0)
           (List.map_filter dropna_row df))))"
  have ne: "df4 \<noteq> []"
    using assms by (auto simp add: rank_options_logic_def Let_def df4_def split: if_splits)
  have "rank_options_logic fl cf Phi df ot S dte = sort_by_score
         (map (score_row fl cf Phi ot S dte (col_min (map volume df4))
                 (col_max (map volume df4)) (col_min (map openInterest df4))
                 (col_max (map openInterest df4))) df4)"
    using ne by (auto simp add: rank_options_logic_def Let_def df4_def split: if_splits)
  with assms obtain c where c: "c \<in> set df4"
    and s: "s = score_row fl cf Phi ot S dte (col_min (map volume df4))
                  (col_max (map volume df4)) (col_min (map openInterest df4))
                  (col_max (map openInterest df4)) c"
    by (auto simp add: set_sort_by_score)
  have b: "col_min (map volume df4) \<le> volume c" "volume c \<le> col_max (map volume df4)"
    "col_min (map openInterest df4) \<le> openInterest c"
    "openInterest c \<le> col_max (map openInterest df4)"
    using c by (simp_all add: col_min_le col_max_ge)
  from c have "c \<in> set (List.map_filter dropna_row df)
           \<and> lastPrice c > 0.01 \<and> bid c > 0 \<and> ask c > 0
           \<and> impliedVolatility c > 0 \<and> impliedVolatility c < 5
           \<and> volume c \<ge> 10 \<and> openInterest c \<ge> 50 \<and> spread_pct_of fl c \<le> 20"
    by (simp add: df4_def)
  with b s show ?thesis by blast
qed

lemma score_row_fields:
  "POP (score_row fl cf Phi ot S dte lo hi lo2 hi2 c) =
     (if cf
      then Some (case calculate_pop Phi ot (strike c) (lastPrice c) S (impliedVolatility c) dte
                 of None \<Rightarrow> 0 | Some p \<Rightarrow> p)
      else calculate_pop Phi ot (strike c) (lastPrice c) S (impliedVolatility c) dte)"
  "Quality_Tier (score_row fl cf Phi ot S dte lo hi lo2 hi2 c) =
     (case Overall_Score (score_row fl cf Phi ot S dte lo hi lo2 hi2 c) of
        None \<Rightarrow> None | Some x \<Rightarrow> pd_cut x)"
  "delta (score_row fl cf Phi ot S dte lo hi lo2 hi2 c) =
     Some (case delta c of None \<Rightarrow> 0.5 | Some x \<Rightarrow> x)"
  "delta_score (score_row fl cf Phi ot S dte lo hi lo2 hi2 c) =
     (if ot = ''call'' then delta_score_call (case delta c of None \<Rightarrow> 0.5 | Some x \<Rightarrow> x)
      else delta_score_put (case delta c of None \<Rightarrow> 0.5 | Some x \<Rightarrow> x))"
  by (simp_all add: score_row_def Let_def chain_row.extend_def scored_row.fields_def)

lemma score_row_overall:
  "Overall_Score (score_row fl cf Phi ot S dte lo hi lo2 hi2 c) =
     (case POP (score_row fl cf Phi ot S dte lo hi lo2 hi2 c) of
        None \<Rightarrow> None
      | Some p \<Rightarrow>
          map_option
            (\<lambda>b. p * 0.40
               + (norm_col lo hi (volume c) * 0.4 + norm_col lo2 hi2 (openInterest c) * 0.4
                  + np_clip (1 - spread_pct_of fl c / 20) 0 1 * 0.2) * 0.25
               + (np_clip (calculate_time_value (lastPrice c)
                     (calculate_intrinsic_value ot (strike c) S) / (lastPrice c + e9)) 0 1 * 0.4
                  + b * 0.6) * 0.20
               + (if ot = ''call''
                  then delta_score_call (case delta c of None \<Rightarrow> 0.5 | Some x \<Rightarrow> x)
                  else delta_score_put (case delta c of None \<Rightarrow> 0.5 | Some x \<Rightarrow> x)) * 0.15)
            (breakeven_score_of
               (case calculate_breakeven ot (strike c) (lastPrice c) of
                  None \<Rightarrow> NaN
                | Some b \<Rightarrow> abs_pct (b - S) (S + e9))))"
  by (simp add: score_row_def Let_def chain_row.extend_def scored_row.fields_def
      option.map_comp comp_def split: option.splits)

lemma set_map_filter_dropna:
  "c \<in> set (List.map_filter dropna_row df) \<longleftrightarrow> (\<exists>r \<in> set df. dropna_row r = Some c)"
  by (induction df) (auto simp add: List.map_filter_simps split: option.splits)

lemma dropna_row_Some:
  "dropna_row r = Some c \<Longrightarrow>
     raw_strike r = Some (strike c) \<and> raw_lastPrice r = Some (lastPrice c)
     \<and> raw_bid r = Some (bid c) \<and> raw_ask r = Some (ask c)
     \<and> raw_volume r = Some (volume c) \<and> raw_openInterest r = Some (openInterest c)
     \<and> raw_impliedVolatility r = Some (impliedVolatility c) \<and> raw_delta r = delta c"
  by (auto simp add: dropna_row_def split: option.splits)

lemma score_row_chain [simp]:
  "strike (score_row fl cf Phi ot S dte lo hi lo2 hi2 c) = strike c"
  "lastPrice (score_row fl cf Phi ot S dte lo hi lo2 hi2 c) = lastPrice c"
  "bid (score_row fl cf Phi ot S dte lo hi lo2 hi2 c) = bid c"
  "ask (score_row fl cf Phi ot S dte lo hi lo2 hi2 c) = ask c"
  "volume (score_row fl cf Phi ot S dte lo hi lo2 hi2 c) = volume c"
  "openInterest (score_row fl cf Phi ot S dte lo hi lo2 hi2 c) = openInterest c"
  "impliedVolatility (score_row fl cf Phi ot S dte lo hi lo2 hi2 c) = impliedVolatility c"
  "mid_price (score_row fl cf Phi ot S dte lo hi lo2 hi2 c) = mid_price_of fl c"
  "spread_pct (score_row fl cf Phi ot S dte lo hi lo2 hi2 c) = spread_pct_of fl c"
  by (simp_all add: score_row_def Let_def chain_row.extend_def scored_row.fields_def)

text \<open>
  What the filters guarantee of every returned row: the volume, the open interest and
  the computed spread percentage, and that the row comes from the input chain.
\<close>

lemma rank_filters_sound:
  assumes "s \<in> set (rank_options_logic fl cf Phi df ot S dte)"
  shows "volume s \<ge> 10 \<and> openInterest s \<ge> 50 \<and> spread_pct s \<le> 20
       \<and> (\<exists>r \<in> set df. raw_volume r = Some (volume s)
              \<and> raw_openInterest r = Some (openInterest s)
              \<and> raw_bid r = Some (bid s) \<and> raw_ask r = Some (ask s))"
proof -
  from rank_output_row [OF assms] obtain c lo hi lo2 hi2 where
    c: "c \<in> set (List.map_filter dropna_row df)"
    and f: "volume c \<ge> 10" "openInterest c \<ge> 50" "spread_pct_of fl c \<le> 20"
    and s: "s = score_row fl cf Phi ot S dte lo hi lo2 hi2 c"
    by blast
  from c obtain r where r: "r \<in> set df" "dropna_row r = Some c"
    by (auto simp add: set_map_filter_dropna)
  show ?thesis
    using f s r dropna_row_Some [OF r(2)] by auto
qed

text \<open>A chain of one contract that passes every filter is returned as one scored row.\<close>

lemma rank_options_logic_single:
  assumes "dropna_row r = Some c"
    and "lastPrice c > 0.01" and "bid c > 0" and "ask c > 0"
    and "impliedVolatility c > 0" and "impliedVolatility c < 5"
    and "volume c \<ge> 10" and "openInterest c \<ge> 50" and "spread_pct_of fl c \<le> 20"
  shows "rank_options_logic fl cf Phi [r] ot S dte =
     [score_row fl cf Phi ot S dte (volume c) (volume c) (openInterest c) (openInterest c) c]"
  using assms
  by (auto simp add: rank_options_logic_def List.map_filter_simps Let_def sort_by_score_single
      col_max_def col_min_def)

lemma spread_pct_exact:
  "spread_pct_of exact c = (ask c - bid c) / ((bid c + ask c) / 2 + e9) * 100"
  by (simp add: spread_pct_of_def mid_price_of_def exact_def)

lemma rank_liquid:
  "rank_options_logic exact cf Phi [liquid_row] ot S dte =
     [score_row exact cf Phi ot S dte 500 500 1000 1000 liquid_chain]"
proof -
  have d: "dropna_row liquid_row = Some liquid_chain"
    by (simp add: dropna_row_def liquid_row_def liquid_chain_def)
  have "rank_options_logic exact cf Phi [liquid_row] ot S dte =
     [score_row exact cf Phi ot S dte (volume liquid_chain) (volume liquid_chain)
        (openInterest liquid_chain) (openInterest liquid_chain) liquid_chain]"
    by (rule rank_options_logic_single [OF d])
       (simp_all add: liquid_chain_def spread_pct_exact e9_def)
  then show ?thesis by (simp add: liquid_chain_def)
qed

lemma rank_boundary:
  "rank_options_logic exact cf Phi [boundary_row] ot S dte =
     [score_row exact cf Phi ot S dte 10 10 50 50 boundary_chain]"
proof -
  have d: "dropna_row boundary_row = Some boundary_chain"
    by (simp add: dropna_row_def boundary_row_def boundary_chain_def)
  have "rank_options_logic exact cf Phi [boundary_row] ot S dte =
     [score_row exact cf Phi ot S dte (volume boundary_chain) (volume boundary_chain)
        (openInterest boundary_chain) (openInterest boundary_chain) boundary_chain]"
    by (rule rank_options_logic_single [OF d])
       (simp_all add: boundary_chain_def spread_pct_exact e9_def)
  then show ?thesis by (simp add: boundary_chain_def)
qed

lemma rank_edge:
  "rank_options_logic exact cf Phi [edge_row] ot S dte =
     [score_row exact cf Phi ot S dte 10 10 50 50 edge_chain]"
proof -
  have d: "dropna_row edge_row = Some edge_chain"
    by (simp add: dropna_row_def edge_row_def edge_chain_def)
  have "rank_options_logic exact cf Phi [edge_row] ot S dte =
     [score_row exact cf Phi ot S dte (volume edge_chain) (volume edge_chain)
        (openInterest edge_chain) (openInterest edge_chain) edge_chain]"
    by (rule rank_options_logic_single [OF d])
       (simp_all add: edge_chain_def spread_pct_exact e9_def)
  then show ?thesis by (simp add: edge_chain_def)
qed






text \<open>
  The contract \<open>edge_chain\<close> at the current price 29.999999999, 30 days: \<open>d2\<close> is above
  8.3, so a saturating distribution function gives the POP 1.
\<close>

lemma edge_d2: "8.3 \<le> spec_d2 0.05 20 29.999999999 0.1 30"
proof -
  have "exp (0.3::real) \<le> 1 + 0.3 + 0.3\<^sup>2"
    by (rule exp_bound) simp_all
  also have "\<dots> \<le> 29.999999999 / 20" by (simp add: power2_eq_square)
  finally have "ln (exp (0.3::real)) \<le> ln (29.999999999 / 20)"
    by (subst ln_le_cancel_iff) simp_all
  then have l: "0.3 \<le> ln (29.999999999 / 20 :: real)" by (simp only: ln_exp)
  define s where "s = sqrt (30 / 365 :: real)"
  have s: "0 < s" "s \<le> 0.29" using sqrt_month by (simp_all add: s_def)
  define N where "N = ln (29.999999999 / 20 :: real) + (0.05 + 0.5 * 0.1\<^sup>2) * (30 / 365)"
  have N: "0.3 \<le> N" using l by (simp add: N_def power2_eq_square)
  have d: "spec_d2 0.05 20 29.999999999 0.1 30 = N / (0.1 * s) - 0.1 * s"
    by (simp add: spec_d2_def Let_def N_def s_def)
  have "0.3 / (0.1 * 0.29) \<le> N / (0.1 * s)"
    using N s by (intro frac_le) simp_all
  moreover have "0.1 * s \<le> 0.1 * 0.29" using s by simp
  ultimately have "0.3 / (0.1 * 0.29) - 0.1 * 0.29 \<le> N / (0.1 * s) - 0.1 * s"
    by linarith
  moreover have "(8.3::real) \<le> 0.3 / (0.1 * 0.29) - 0.1 * 0.29" by simp
  ultimately show ?thesis unfolding d by linarith
qed

lemma edge_pop: "calculate_pop saturating ''call'' 20 8.749999999 29.999999999 0.1 30 = Some 1"
  using edge_d2 by (simp add: calculate_pop_valid saturating_def np_clip_def)

lemma edge_overall:
  "Overall_Score (score_row exact cf saturating ''call'' 29.999999999 30 10 10 50 50 edge_chain)
     = Some 0.75"
proof -
  have p: "POP (score_row exact cf saturating ''call'' 29.999999999 30 10 10 50 50 edge_chain)
      = Some 1"
    using edge_pop by (simp add: score_row_fields(1) edge_chain_def)
  show ?thesis
    unfolding score_row_overall p
    by (simp add: norm_col_def spread_pct_exact np_clip_def calculate_time_value_def
        calculate_intrinsic_value_def calculate_breakeven_def edge_chain_def
        delta_score_call_def abs_pct_def breakeven_score_of_def e9_def)
qed

lemma boundary_overall:
  "Overall_Score (score_row exact True Phi ''call'' 29.999999999 0 10 10 50 50 boundary_chain)
     = Some 0.4"
proof -
  have p: "POP (score_row exact True Phi ''call'' 29.999999999 0 10 10 50 50 boundary_chain)
      = Some 0"
    by (simp add: score_row_fields(1) calculate_pop_def)
  show ?thesis
    unfolding score_row_overall p
    by (simp add: norm_col_def spread_pct_exact np_clip_def calculate_time_value_def
        calculate_intrinsic_value_def calculate_breakeven_def boundary_chain_def
        delta_score_call_def abs_pct_def breakeven_score_of_def e9_def)
qed

text \<open>
  C5, as stated, fails: the bins of \<^verbatim>\<open>pd.cut\<close> are closed on the right.  The chain of the
  one contract \<open>edge_row\<close>, ranked as a call at the current price 29.999999999 and 30
  days with a saturating distribution function, yields a row with the POP 1 and the
  overall score exactly 0.75, and its tier is Good, not Excellent; this does not depend
  on what the chained \<^verbatim>\<open>fillna\<close> does.  Where that statement fills the column, the
  contract \<open>boundary_row\<close> at DTE 0 yields a row with the overall score exactly 0.4, and
  its tier is Poor, not Fair.  The score 0 lies in no bin.
\<close>

theorem C5_tier_boundary_counterexample:
  "map Overall_Score
       (rank_options_logic exact False saturating [edge_row] ''call'' 29.999999999 30)
     = [Some 0.75]
   \<and> map Quality_Tier
       (rank_options_logic exact False saturating [edge_row] ''call'' 29.999999999 30)
     = [Some Good]
   \<and> map Overall_Score
       (rank_options_logic exact True logistic [boundary_row] ''call'' 29.999999999 0)
     = [Some 0.4]
   \<and> map Quality_Tier
       (rank_options_logic exact True logistic [boundary_row] ''call'' 29.999999999 0)
     = [Some Poor]
   \<and> pd_cut 0.4 = Some Poor
   \<and> pd_cut 0 = None"
proof -
  have 1: "map Overall_Score
       (rank_options_logic exact False saturating [edge_row] ''call'' 29.999999999 30)
     = [Some 0.75]"
    unfolding rank_edge using edge_overall [of False] by simp
  have 2: "map Quality_Tier
       (rank_options_logic exact False saturating [edge_row] ''call'' 29.999999999 30)
     = [Some Good]"
    unfolding rank_edge list.map score_row_fields(2) edge_overall
    by (simp add: pd_cut_def)
  have 3: "map Overall_Score
       (rank_options_logic exact True logistic [boundary_row] ''call'' 29.999999999 0)
     = [Some 0.4]"
    unfolding rank_boundary using boundary_overall [of logistic] by simp
  have 4: "map Quality_Tier
       (rank_options_logic exact True logistic [boundary_row] ''call'' 29.999999999 0)
     = [Some Poor]"
    unfolding rank_boundary list.map score_row_fields(2) boundary_overall
    by (simp add: pd_cut_def)
  have 5: "pd_cut 0.4 = Some Poor" "pd_cut 0 = None"
    by (simp_all add: pd_cut_def)
  show ?thesis using 1 2 3 4 5 by blast
qed

text \<open>
  C5, amended.  Every scored row's tier is determined from its overall score by intervals
  open on the left and closed on the right: Poor on (0, 0.4], Fair on (0.4, 0.6], Good on
  (0.6, 0.75] and Excellent on (0.75, 1.0]; a row with score exactly 0.4 is Poor, and a
  row whose score is 0, outside (0, 1] or NaN has no tier.  This holds for every option
  type, every rounding in the spread columns and both behaviours of the chained
  \<^verbatim>\<open>fillna\<close>.
\<close>

theorem C5_quality_tier_right_closed:
  assumes "s \<in> set (rank_options_logic fl cf Phi df ot S dte)"
  shows "Quality_Tier s =
     (case Overall_Score s of
        None \<Rightarrow> None
      | Some x \<Rightarrow>
          if 0 < x \<and> x \<le> 0.4 then Some Poor
          else if 0.4 < x \<and> x \<le> 0.6 then Some Fair
          else if 0.6 < x \<and> x \<le> 0.75 then Some Good
          else if 0.75 < x \<and> x \<le> 1 then Some Excellent
          else None)"
proof -
  from rank_output_row [OF assms] obtain c lo hi lo2 hi2 where
    s: "s = score_row fl cf Phi ot S dte lo hi lo2 hi2 c"
    by blast
  show ?thesis
    unfolding s score_row_fields(2) by (simp add: pd_cut_def split: option.splits)
qed

theorem C5_quality_tier_right_closed_witness:
  "rank_options_logic exact False saturating [edge_row] ''call'' 29.999999999 30
     = [score_row exact False saturating ''call'' 29.999999999 30 10 10 50 50 edge_chain]
   \<and> Overall_Score
       (score_row exact False saturating ''call'' 29.999999999 30 10 10 50 50 edge_chain)
     = Some 0.75
   \<and> Quality_Tier
       (score_row exact False saturating ''call'' 29.999999999 30 10 10 50 50 edge_chain)
     = Some Good"
proof -
  have m: "score_row exact False saturating ''call'' 29.999999999 30 10 10 50 50 edge_chain
      \<in> set (rank_options_logic exact False saturating [edge_row] ''call'' 29.999999999 30)"
    by (simp add: rank_edge)
  show ?thesis
    using C5_quality_tier_right_closed [OF m] edge_overall [of False]
    by (simp add: rank_edge)
qed




subsection \<open>VWAP of a single bar\<close>

text \<open>The typical price of a bar with three prices, as the floats compute it.\<close>

lemma typical_price_bar:
  "typical_price fl \<lparr>High = Some h, Low = Some l, Close = Some c, Volume = v\<rparr>
     = Some (fl (fl (fl (h + l) + c) / 3))"
  by (simp add: typical_price_def fl_add_def)

lemma vwap_single:
  "calculate_vwap fl (ohlcv [\<lparr>High = Some h, Low = Some l, Close = Some c, Volume = Some v\<rparr>])
     = [if v = 0 then NaN
        else np_round fl (np_div (fl (fl (fl (fl (h + l) + c) / 3) * v)) (fl (v + fl e10)))]"
  by (simp add: calculate_vwap_def ohlcv_def typical_price_bar fl_mul_def fl_cumsum_def
      vwap_point_def bfill_def ffill_def np_round_def)

lemma vwap_v1_single:
  "calculate_vwap_v1 fl (ohlcv [\<lparr>High = Some h, Low = Some l, Close = Some c, Volume = Some v\<rparr>])
     = Inr [if v = 0 then NaN else Fin (fl (fl (fl (fl (fl (h + l) + c) / 3) * v) / v))]"
  by (simp add: calculate_vwap_v1_def ohlcv_def typical_price_bar fl_mul_def fl_cumsum_def
      vwap_point_v1_def bfill_def ffill_def)

text \<open>
  C8, as stated, fails.  For the bar with high, low and close 3 and volume 1 the typical
  price is 3 and \<^verbatim>\<open>calculations.calculate_vwap\<close> returns 3 / (1 + 1e-10); for the same bar
  with volume 0 both versions return NaN.
\<close>

theorem C8_single_bar_vwap_counterexample:
  "typical_price exact \<lparr>High = Some 3, Low = Some 3, Close = Some 3, Volume = Some 1\<rparr> = Some 3
   \<and> calculate_vwap exact
        (ohlcv [\<lparr>High = Some 3, Low = Some 3, Close = Some 3, Volume = Some 1\<rparr>])
     = [Fin (30000000000 / 10000000001)]
   \<and> Fin (30000000000 / 10000000001) \<noteq> Fin 3
   \<and> calculate_vwap exact
        (ohlcv [\<lparr>High = Some 3, Low = Some 3, Close = Some 3, Volume = Some 0\<rparr>])
     = [NaN]
   \<and> calculate_vwap_v1 exact
        (ohlcv [\<lparr>High = Some 3, Low = Some 3, Close = Some 3, Volume = Some 0\<rparr>])
     = Inr [NaN]"
  by (simp add: vwap_single vwap_v1_single typical_price_bar np_div_def np_round_def e10_def
      exact_def)

text \<open>
  C8, amended.  For a series of exactly one bar with High, Low, Close and Volume: with
  volume 0 the VWAP is NaN in both versions; with a volume \<open>v \<noteq> 0\<close>
  \<^verbatim>\<open>TradeBot_V1.calculate_vwap\<close> returns the float quotient \<open>(p \<sqdot> v) / v\<close> and
  \<^verbatim>\<open>calculations.calculate_vwap\<close> the float quotient \<open>(p \<sqdot> v) / (v + 1e-10)\<close>, where \<open>p\<close>
  is the bar's typical price \<open>(high + low + close) / 3\<close> as computed.  That is the typical
  price up to rounding and the guard \<^verbatim>\<open>1e-10\<close>; in \<^verbatim>\<open>TradeBot_V1\<close> it is exactly the
  typical price whenever the product \<open>p \<sqdot> v\<close> is computed without rounding error.
\<close>

theorem C8_single_bar_vwap:
  "calculate_vwap_v1 fl (ohlcv [\<lparr>High = Some h, Low = Some l, Close = Some c, Volume = Some v\<rparr>])
     = Inr [if v = 0 then NaN else Fin (fl (fl (fl (fl (fl (h + l) + c) / 3) * v) / v))]
   \<and> calculate_vwap fl (ohlcv [\<lparr>High = Some h, Low = Some l, Close = Some c, Volume = Some v\<rparr>])
     = [if v = 0 then NaN
        else np_round fl (np_div (fl (fl (fl (fl (h + l) + c) / 3) * v))
                            (fl (v + fl (1 / 10 ^ 10))))]
   \<and> typical_price fl \<lparr>High = Some h, Low = Some l, Close = Some c, Volume = Some v\<rparr>
     = Some (fl (fl (fl (h + l) + c) / 3))
   \<and> (v \<noteq> 0 \<and> typical_price fl \<lparr>High = Some h, Low = Some l, Close = Some c, Volume = Some v\<rparr>
              = Some p
        \<and> fl (p * v) = p * v \<and> fl p = p \<longrightarrow>
        calculate_vwap_v1 fl
            (ohlcv [\<lparr>High = Some h, Low = Some l, Close = Some c, Volume = Some v\<rparr>])
          = Inr [Fin p])"
proof -
  have 4: "calculate_vwap_v1 fl
            (ohlcv [\<lparr>High = Some h, Low = Some l, Close = Some c, Volume = Some v\<rparr>])
          = Inr [Fin p]"
    if "v \<noteq> 0" and "typical_price fl \<lparr>High = Some h, Low = Some l, Close = Some c,
          Volume = Some v\<rparr> = Some p" and "fl (p * v) = p * v" and "fl p = p"
  proof -
    have p: "fl (fl (fl (h + l) + c) / 3) = p"
      using that(2) by (simp add: typical_price_bar)
    show ?thesis
      unfolding vwap_v1_single p using that(1,3,4) by simp
  qed
  show ?thesis
    using 4 by (simp add: vwap_single vwap_v1_single typical_price_bar e10_def)
qed

theorem C8_single_bar_vwap_witness:
  "(1000::real) \<noteq> 0
   \<and> typical_price exact \<lparr>High = Some 101, Low = Some 99, Close = Some 100, Volume = Some 1000\<rparr>
       = Some 100
   \<and> calculate_vwap_v1 exact
        (ohlcv [\<lparr>High = Some 101, Low = Some 99, Close = Some 100, Volume = Some 1000\<rparr>])
       = Inr [Fin 100]
   \<and> calculate_vwap exact
        (ohlcv [\<lparr>High = Some 101, Low = Some 99, Close = Some 100, Volume = Some 1000\<rparr>])
       = [Fin (100 * 1000 / (1000 + 1 / 10 ^ 10))]"
proof -
  have t: "typical_price exact
      \<lparr>High = Some 101, Low = Some 99, Close = Some 100, Volume = Some 1000\<rparr> = Some 100"
    by (simp add: typical_price_bar exact_def)
  have h: "(1000::real) \<noteq> 0
      \<and> typical_price exact
          \<lparr>High = Some 101, Low = Some 99, Close = Some 100, Volume = Some 1000\<rparr> = Some 100
      \<and> exact (100 * 1000) = 100 * 1000 \<and> exact 100 = 100"
    using t by (simp add: exact_def)
  have v1: "calculate_vwap_v1 exact
        (ohlcv [\<lparr>High = Some 101, Low = Some 99, Close = Some 100, Volume = Some 1000\<rparr>])
       = Inr [Fin 100]"
    using C8_single_bar_vwap [of exact 101 99 100 1000 100] h by blast
  have c: "calculate_vwap exact
        (ohlcv [\<lparr>High = Some 101, Low = Some 99, Close = Some 100, Volume = Some 1000\<rparr>])
       = [Fin (100 * 1000 / (1000 + 1 / 10 ^ 10))]"
    by (simp add: vwap_single np_div_def np_round_def e10_def exact_def)
  show ?thesis using t v1 c by simp
qed

subsection \<open>Indicators on short input\<close>

lemma dropna_empty_iff: "dropna xs = [] \<longleftrightarrow> (\<forall>x \<in> set xs. x = None)"
  by (induction xs rule: dropna.induct) auto

text \<open>
  C7, as stated, fails for one valid close.  For the frame of the single bar with close
  100 the function returns the RSI series [50] and the MACD and signal series [0.0]:
  series filled with the default values, not empty ones.
\<close>

theorem C7_one_close_counterexample:
  "calculate_technical_indicators
     (ohlcv [\<lparr>High = Some 101, Low = Some 99, Close = Some 100, Volume = Some 1000\<rparr>])
   = ([50], [0], [0])"
  by (simp add: calculate_technical_indicators_def ohlcv_def RSI_PERIOD_def
      MACD_SLOW_PERIOD_def Let_def)

text \<open>
  C7, amended.  For every input whose Close column is missing or holds no valid closing
  price, \<^verbatim>\<open>calculate_technical_indicators\<close> returns three empty series.  For an input
  with at least one and at most 14 valid closing prices, so for exactly one, it returns
  series of the length of the frame filled with the defaults: 50 for the RSI and 0.0 for
  the MACD and signal lines.  It never raises.
\<close>

theorem C7_short_input_indicators:
  "((''Close'' \<notin> set (columns df) \<or> dropna (map Close (bars df)) = []) \<longrightarrow>
       calculate_technical_indicators df = ([], [], []))
   \<and> ((''Close'' \<in> set (columns df) \<and> 1 \<le> length (dropna (map Close (bars df)))
        \<and> length (dropna (map Close (bars df))) \<le> 14) \<longrightarrow>
       calculate_technical_indicators df =
         (replicate (length (bars df)) 50, replicate (length (bars df)) 0,
          replicate (length (bars df)) 0))"
proof -
  have a: "calculate_technical_indicators df = ([], [], [])"
    if "''Close'' \<notin> set (columns df) \<or> dropna (map Close (bars df)) = []"
    using that by (auto simp add: calculate_technical_indicators_def Let_def dropna_empty_iff)
  have b: "calculate_technical_indicators df =
         (replicate (length (bars df)) 50, replicate (length (bars df)) 0,
          replicate (length (bars df)) 0)"
    if h: "''Close'' \<in> set (columns df) \<and> 1 \<le> length (dropna (map Close (bars df)))
        \<and> length (dropna (map Close (bars df))) \<le> 14"
  proof -
    from h have ne: "dropna (map Close (bars df)) \<noteq> []" by auto
    then have "\<not> (\<forall>b \<in> set (bars df). Close b = None)" "bars df \<noteq> []"
      by (auto simp add: dropna_empty_iff)
    with h ne show ?thesis
      by (simp add: calculate_technical_indicators_def Let_def RSI_PERIOD_def
          MACD_SLOW_PERIOD_def)
  qed
  show ?thesis using a b by blast
qed

theorem C7_short_input_indicators_witness:
  "dropna (map Close (bars (ohlcv [\<lparr>High = Some 1, Low = Some 1, Close = None, Volume = Some 1\<rparr>])))
     = []
   \<and> calculate_technical_indicators
       (ohlcv [\<lparr>High = Some 1, Low = Some 1, Close = None, Volume = Some 1\<rparr>]) = ([], [], [])
   \<and> calculate_technical_indicators
       (ohlcv [\<lparr>High = Some 101, Low = Some 99, Close = Some 100, Volume = Some 1000\<rparr>])
     = ([50], [0], [0])"
  using
    C7_short_input_indicators
      [of "ohlcv [\<lparr>High = Some 1, Low = Some 1, Close = None, Volume = Some 1\<rparr>]"]
    C7_short_input_indicators
      [of "ohlcv [\<lparr>High = Some 101, Low = Some 99, Close = Some 100, Volume = Some 1000\<rparr>]"]
  by (simp add: ohlcv_def)

subsection \<open>Trend aggregation\<close>

lemma trend_loop_score:
  "fst (trend_loop fl td sc rs)
     = foldl (\<lambda>acc (s, w). fl (acc + fl (s * w))) sc (used_signals fl td)"
  by (induction fl td sc rs rule: trend_loop.induct)
     (simp_all add: Let_def split: option.splits)

lemma float_sum_exact: "foldl (\<lambda>acc (s, w). exact (acc + exact (s * w))) a sw
    = a + (\<Sum>(s, w) \<leftarrow> sw. s * w)"
  by (induction sw arbitrary: a) (auto simp add: exact_def)

lemma analyze_market_trend_label:
  assumes "td \<noteq> []"
  shows "fst (analyze_market_trend fl pysum td) =
      (if fl 0.1 < float_sum fl (used_signals fl td) then ''Bullish''
       else if float_sum fl (used_signals fl td) < - fl 0.1 then ''Bearish''
       else ''Neutral'')"
  using assms trend_loop_score [of fl td 0 "[]"]
  by (auto simp add: analyze_market_trend_def float_sum_def Let_def split: prod.splits)

text \<open>
  C3, as stated, fails for \<^verbatim>\<open>analyze_market_trend\<close>.  With the one resolution 1h, up
  from 100 to 101, the weighted score of the claim is 0.1 / 0.1 = 1 and its label
  Bullish; the code compares the sum 0.1, not divided by the weight used, with 0.1 and
  returns Neutral.
\<close>

theorem C3_trend_label_counterexample:
  "used_signals exact [(''1h'', [Some 100, Some 101])] = [(1, 0.1)]
   \<and> spec_trend_label (spec_weighted_score (used_signals exact [(''1h'', [Some 100, Some 101])]))
       = ''Bullish''
   \<and> fst (analyze_market_trend exact sum_list [(''1h'', [Some 100, Some 101])]) = ''Neutral''"
  by (simp add: analyze_market_trend_def weights_def interval_score_def price_change_pct_def
      spec_trend_label_def spec_weighted_score_def Let_def exact_def)

text \<open>
  C3, amended.  In \<^verbatim>\<open>analyze_trend_properly\<close>, when no block divides by zero and at
  least one resolution is used, the weighted score is \<open>\<Sum>(signal \<sqdot> weight)\<close> divided by the
  sum of the weights of the resolutions used, the label is Bullish exactly when it is
  above 0.15, Bearish exactly when it is below -0.15 and Neutral otherwise, and the
  confidence is its absolute value times 100.  In \<^verbatim>\<open>analyze_market_trend\<close>, for a
  non-empty input, the label is decided from the sum of signal times weight itself, not
  divided, as the floats add it: Bullish exactly when that sum is above the double of
  0.1, Bearish exactly when it is below minus that double, Neutral otherwise.  With
  exact arithmetic that sum is \<open>\<Sum>(signal \<sqdot> weight)\<close>.
\<close>

theorem C3_trend_labels:
  "((Raised \<notin> set (trend_blocks d1 h1 m30 m15)
      \<and> signals_weights (trend_blocks d1 h1 m30 m15) \<noteq> []) \<longrightarrow>
       fst (analyze_trend_properly d1 h1 m30 m15)
         = spec_trend_label (spec_weighted_score (signals_weights (trend_blocks d1 h1 m30 m15)))
       \<and> fst (snd (analyze_trend_properly d1 h1 m30 m15))
         = \<bar>spec_weighted_score (signals_weights (trend_blocks d1 h1 m30 m15))\<bar> * 100)
   \<and> (td \<noteq> [] \<longrightarrow>
       fst (analyze_market_trend fl pysum td) =
         (if fl 0.1 < float_sum fl (used_signals fl td) then ''Bullish''
          else if float_sum fl (used_signals fl td) < - fl 0.1 then ''Bearish''
          else ''Neutral''))
   \<and> float_sum exact sw = (\<Sum>(s, w) \<leftarrow> sw. s * w)"
proof -
  have a: "fst (analyze_trend_properly d1 h1 m30 m15)
         = spec_trend_label (spec_weighted_score (signals_weights (trend_blocks d1 h1 m30 m15)))
       \<and> fst (snd (analyze_trend_properly d1 h1 m30 m15))
         = \<bar>spec_weighted_score (signals_weights (trend_blocks d1 h1 m30 m15))\<bar> * 100"
    if "Raised \<notin> set (trend_blocks d1 h1 m30 m15)"
      and "signals_weights (trend_blocks d1 h1 m30 m15) \<noteq> []"
    using that
    by (simp add: analyze_trend_properly_def Let_def spec_trend_label_def
        spec_weighted_score_def)
  have c: "float_sum exact sw = (\<Sum>(s, w) \<leftarrow> sw. s * w)"
    unfolding float_sum_def float_sum_exact by simp
  show ?thesis
    using a analyze_market_trend_label [of td fl pysum] c by blast
qed

theorem C3_trend_labels_witness:
  "fst (analyze_trend_properly [100, 101, 103] [] [100, 100, 100, 100.1, 100.3] [])
     = spec_trend_label (spec_weighted_score [(1, 0.4), (1, 0.2)])
   \<and> fst (analyze_trend_properly [100, 101, 103] [] [100, 100, 100, 100.1, 100.3] [])
     = ''Bullish''
   \<and> fst (analyze_market_trend exact sum_list [(''1h'', [Some 100, Some 101])]) = ''Neutral''"
proof -
  have b: "trend_blocks [100, 101, 103] [] [100, 100, 100, 100.1, 100.3] []
      = [Used 1 0.4 (Up ''Daily''), Skipped, Used 1 0.2 (Up ''30min''), Skipped]"
    by (simp add: trend_blocks_def sma_block_def momentum_block_def from_end_def
        mean_last_def Let_def)
  have u: "used_signals exact [(''1h'', [Some 100, Some 101])] = [(1, 0.1)]"
    by (simp add: weights_def interval_score_def price_change_pct_def exact_def)
  have l: "spec_trend_label (spec_weighted_score [(1, 0.4), (1, 0.2)]) = ''Bullish''"
    by (simp add: spec_trend_label_def spec_weighted_score_def)
  show ?thesis
    using C3_trend_labels [of "[100, 101, 103]" "[]" "[100, 100, 100, 100.1, 100.3]" "[]"
        "[(''1h'', [Some 100, Some 101])]" exact sum_list "[]"] b u l
    by (simp add: float_sum_def exact_def)
qed

subsection \<open>A contract without delta\<close>

lemma score_row_delta_default:
  "score_row fl cf Phi ot S dte lo hi lo2 hi2 (c\<lparr>delta := None\<rparr>)
     = score_row fl cf Phi ot S dte lo hi lo2 hi2 (c\<lparr>delta := Some 0.5\<rparr>)"
  by (simp add: score_row_def Let_def spread_pct_of_def mid_price_of_def)

lemma analyze_single_delta_default:
  "analyze_single_option_details Phi (c\<lparr>delta := None\<rparr>) S dte ot
     = analyze_single_option_details Phi (c\<lparr>delta := Some 0\<rparr>) S dte ot"
  by (cases "calculate_breakeven ot (strike c) (lastPrice c)")
     (simp_all add: analyze_single_option_details_def Let_def)

lemma analyze_single_defined:
  "\<exists>a. analyze_single_option_details Phi c S dte ''call'' = Inr a"
  by (simp add: analyze_single_option_details_def calculate_breakeven_def Let_def)

text \<open>
  The liquid call at the current price 105 and 30 days: every part but the POP part and
  the delta part is a number.
\<close>

lemma analyze_single_liquid:
  assumes "analyze_single_option_details Phi (liquid_chain\<lparr>delta := x\<rparr>) 105 30 ''call'' = Inr a"
  shows "total_score a = fst (pop_part (calculate_pop Phi ''call'' 100 2 105 0.3 30)) + 50
             + fst (delta_part ''call'' (case x of None \<Rightarrow> 0 | Some y \<Rightarrow> y))"
    and "red_flags a = snd (snd (pop_part (calculate_pop Phi ''call'' 100 2 105 0.3 30)))
             @ snd (snd (delta_part ''call'' (case x of None \<Rightarrow> 0 | Some y \<Rightarrow> y)))"
  using assms
  by (auto simp add: analyze_single_option_details_def calculate_breakeven_def
      calculate_intrinsic_value_def calculate_time_value_def np_pct_def np_div_def e9_def
      volume_part_def oi_part_def spread_part_def iv_part_def
      breakeven_part_def np_le_def time_value_part_def Let_def liquid_chain_def)

text \<open>
  C6, as stated, fails for \<^verbatim>\<open>analyze_single_option_details\<close>.  For the liquid call with
  strike 100 and no delta, at the current price 105 and 30 days, the analysis is the one
  of the same contract with delta 0.0: the delta part gives 3 points and the red flag
  \<open>Very_Low_Delta\<close>.  With delta 0.5 the contract gets 15 points more, the reason
  \<open>Balanced_Delta\<close> and no such flag.
\<close>

theorem C6_single_analysis_delta_counterexample:
  "analyze_single_option_details logistic liquid_chain 105 30 ''call'' \<noteq> Inl TypeError
   \<and> analyze_single_option_details logistic liquid_chain 105 30 ''call''
       = analyze_single_option_details logistic (liquid_chain\<lparr>delta := Some 0\<rparr>) 105 30 ''call''
   \<and> total_score (projr (analyze_single_option_details logistic liquid_chain 105 30 ''call''))
        + 15
       = total_score (projr (analyze_single_option_details logistic
                               (liquid_chain\<lparr>delta := Some 0.5\<rparr>) 105 30 ''call''))
   \<and> Very_Low_Delta
       \<in> set (red_flags (projr (analyze_single_option_details logistic liquid_chain 105 30
                                  ''call'')))
   \<and> Very_Low_Delta
       \<notin> set (red_flags (projr (analyze_single_option_details logistic
                                  (liquid_chain\<lparr>delta := Some 0.5\<rparr>) 105 30 ''call'')))"
proof -
  have n: "liquid_chain = liquid_chain\<lparr>delta := None\<rparr>"
    by (simp add: liquid_chain_def)
  obtain a where a: "analyze_single_option_details logistic (liquid_chain\<lparr>delta := None\<rparr>)
                       105 30 ''call'' = Inr a"
    using analyze_single_defined by blast
  obtain b where b: "analyze_single_option_details logistic (liquid_chain\<lparr>delta := Some 0.5\<rparr>)
                       105 30 ''call'' = Inr b"
    using analyze_single_defined by blast
  have f: "Very_Low_Delta \<notin> set (snd (snd (pop_part p)))" for p
    by (simp add: pop_part_def split: option.splits)
  have sa: "total_score a + 15 = total_score b"
    using analyze_single_liquid(1) [OF a] analyze_single_liquid(1) [OF b]
    by (simp add: delta_part_def delta_bands_def)
  have fa: "Very_Low_Delta \<in> set (red_flags a)"
    using analyze_single_liquid(2) [OF a] by (simp add: delta_part_def delta_bands_def)
  have fb: "Very_Low_Delta \<notin> set (red_flags b)"
    using analyze_single_liquid(2) [OF b] f by (simp add: delta_part_def delta_bands_def)
  have e: "analyze_single_option_details logistic liquid_chain 105 30 ''call''
       = analyze_single_option_details logistic (liquid_chain\<lparr>delta := Some 0\<rparr>) 105 30 ''call''"
    using analyze_single_delta_default [of logistic liquid_chain 105 30 "''call''"] n by simp
  have a': "analyze_single_option_details logistic liquid_chain 105 30 ''call'' = Inr a"
    using a n by simp
  have 1: "analyze_single_option_details logistic liquid_chain 105 30 ''call'' \<noteq> Inl TypeError"
    unfolding a' by simp
  have 3: "total_score (projr (analyze_single_option_details logistic liquid_chain 105 30 ''call''))
        + 15
       = total_score (projr (analyze_single_option_details logistic
                               (liquid_chain\<lparr>delta := Some 0.5\<rparr>) 105 30 ''call''))"
    unfolding a' b using sa by simp
  have 4: "Very_Low_Delta
       \<in> set (red_flags (projr (analyze_single_option_details logistic liquid_chain 105 30
                                  ''call'')))"
    unfolding a' using fa by simp
  have 5: "Very_Low_Delta
       \<notin> set (red_flags (projr (analyze_single_option_details logistic
                                  (liquid_chain\<lparr>delta := Some 0.5\<rparr>) 105 30 ''call'')))"
    unfolding b using fb by simp
  show ?thesis
    using 1 e 3 4 5 by blast
qed

text \<open>
  C6, amended.  In the ranked-table scorer \<^verbatim>\<open>rank_options_logic\<close> a contract whose delta
  is absent or null is treated as having delta 0.5: its scored row carries the delta 0.5
  and the delta score of 0.5.  In \<^verbatim>\<open>analyze_single_option_details\<close> such a contract is
  treated as having delta 0.0.
\<close>

theorem C6_missing_delta_defaults:
  "(s \<in> set (rank_options_logic fl cf Phi df ot S dte) \<longrightarrow>
      (\<exists>r \<in> set df. raw_strike r = Some (strike s) \<and> raw_lastPrice r = Some (lastPrice s)
          \<and> raw_bid r = Some (bid s) \<and> raw_ask r = Some (ask s)
          \<and> raw_volume r = Some (volume s) \<and> raw_openInterest r = Some (openInterest s)
          \<and> raw_impliedVolatility r = Some (impliedVolatility s)
          \<and> delta s = Some (case raw_delta r of None \<Rightarrow> 0.5 | Some x \<Rightarrow> x)
          \<and> delta_score s =
              (if ot = ''call''
               then delta_score_call (case raw_delta r of None \<Rightarrow> 0.5 | Some x \<Rightarrow> x)
               else delta_score_put (case raw_delta r of None \<Rightarrow> 0.5 | Some x \<Rightarrow> x))))
   \<and> score_row fl cf Phi ot S dte lo hi lo2 hi2 (c\<lparr>delta := None\<rparr>)
       = score_row fl cf Phi ot S dte lo hi lo2 hi2 (c\<lparr>delta := Some 0.5\<rparr>)
   \<and> analyze_single_option_details Phi (c\<lparr>delta := None\<rparr>) S dte ot
       = analyze_single_option_details Phi (c\<lparr>delta := Some 0\<rparr>) S dte ot"
proof -
  have 1: "\<exists>r \<in> set df. raw_strike r = Some (strike s) \<and> raw_lastPrice r = Some (lastPrice s)
          \<and> raw_bid r = Some (bid s) \<and> raw_ask r = Some (ask s)
          \<and> raw_volume r = Some (volume s) \<and> raw_openInterest r = Some (openInterest s)
          \<and> raw_impliedVolatility r = Some (impliedVolatility s)
          \<and> delta s = Some (case raw_delta r of None \<Rightarrow> 0.5 | Some x \<Rightarrow> x)
          \<and> delta_score s =
              (if ot = ''call''
               then delta_score_call (case raw_delta r of None \<Rightarrow> 0.5 | Some x \<Rightarrow> x)
               else delta_score_put (case raw_delta r of None \<Rightarrow> 0.5 | Some x \<Rightarrow> x))"
    if h: "s \<in> set (rank_options_logic fl cf Phi df ot S dte)"
  proof -
    from rank_output_row [OF h] obtain c' lo' hi' lo2' hi2' where
      c: "c' \<in> set (List.map_filter dropna_row df)"
      and s: "s = score_row fl cf Phi ot S dte lo' hi' lo2' hi2' c'"
      by blast
    from c obtain r where r: "r \<in> set df" "dropna_row r = Some c'"
      by (auto simp add: set_map_filter_dropna)
    show ?thesis
      using r(1) dropna_row_Some [OF r(2)] s
      by (intro bexI [of _ r]) (simp_all add: score_row_fields(3,4))
  qed
  show ?thesis
    using 1 score_row_delta_default [of fl cf Phi ot S dte lo hi lo2 hi2 c]
      analyze_single_delta_default [of Phi c S dte ot]
    by blast
qed

theorem C6_missing_delta_defaults_witness:
  "rank_options_logic exact True logistic [liquid_row] ''call'' 105 30
     = [score_row exact True logistic ''call'' 105 30 500 500 1000 1000 liquid_chain]
   \<and> raw_delta liquid_row = None
   \<and> delta (score_row exact True logistic ''call'' 105 30 500 500 1000 1000 liquid_chain)
       = Some 0.5
   \<and> delta_score (score_row exact True logistic ''call'' 105 30 500 500 1000 1000 liquid_chain)
       = 1
   \<and> analyze_single_option_details logistic (liquid_chain\<lparr>delta := None\<rparr>) 105 30 ''call''
       = analyze_single_option_details logistic (liquid_chain\<lparr>delta := Some 0\<rparr>) 105 30 ''call''"
  using C6_missing_delta_defaults [of
      "score_row exact True logistic ''call'' 105 30 500 500 1000 1000 liquid_chain"
      exact True logistic "[liquid_row]" "''call''" 105 30
      500 500 1000 1000 liquid_chain]
    rank_liquid [of True logistic "''call''" 105 30]
  by (simp add: liquid_row_def delta_score_call_def)

end
